theory Spec2Isabelle
  imports Main
begin

section \<open>Errors, durations and reconcile results\<close>

text \<open>
  Errors of the object store and of the helpers. \<open>k8s_errors.IsNotFound\<close> recognises the
  one error that means "the object does not exist"; every other failure is an
  \<open>OtherError\<close>. A Go \<open>error\<close> value is an \<open>error option\<close>, \<open>None\<close> being \<open>nil\<close>.
\<close>

datatype error = NotFound | OtherError string

definition IsNotFound :: "error option \<Rightarrow> bool" where
  "IsNotFound e = (e = Some NotFound)"

definition IgnoreNotFound :: "error option \<Rightarrow> error option" where
  "IgnoreNotFound e = (if IsNotFound e then None else e)"

text \<open>\<open>time.Duration\<close> counts nanoseconds.\<close>

type_synonym Duration = int

definition Second :: Duration where
  "Second = 1000000000"

record ctrl_Result =
  Requeue :: bool
  RequeueAfter :: Duration

text \<open>The zero value \<open>ctrl.Result{}\<close>.\<close>

definition Result_empty :: ctrl_Result where
  "Result_empty = \<lparr>Requeue = False, RequeueAfter = 0\<rparr>"

section \<open>Objects of the store\<close>

text \<open>A namespaced name is the pair (namespace, name).\<close>

type_synonym NamespacedName = "string \<times> string"

text \<open>
  A timestamp is a number of seconds after the zero instant; the pointer
  \<open>DeletionTimestamp\<close> is an option. \<open>IsZero\<close> holds of the nil pointer and of the zero instant.
\<close>

type_synonym Time = nat

definition IsZero :: "Time option \<Rightarrow> bool" where
  "IsZero t = (case t of None \<Rightarrow> True | Some s \<Rightarrow> s = 0)"

text \<open>
  The claim, with the fields \<open>Reconcile\<close> reads and writes. \<open>Status_Hash\<close> is a Go map that
  may be nil (\<open>None\<close>).
\<close>

record MariaDBDatabase =
  Name :: string
  Namespace :: string
  Labels :: "string \<rightharpoonup> string"
  DeletionTimestamp :: "Time option"
  Finalizers :: "string list"
  Status_Hash :: "(string \<rightharpoonup> string) option"
  Status_Completed :: bool

record Galera =
  Galera_Name :: string
  Galera_Namespace :: string
  Galera_Finalizers :: "string list"
  Galera_Spec_Secret :: string
  Galera_Spec_ContainerImage :: string
  Galera_Status_Bootstrapped :: bool

record MariaDB =
  MariaDB_Name :: string
  MariaDB_Namespace :: string
  MariaDB_Finalizers :: "string list"
  MariaDB_Spec_Secret :: string
  MariaDB_Spec_ContainerImage :: string
  MariaDB_Status_DbInitHash :: string

text \<open>Reading a Go map of strings: a nil map and a missing key both give the empty string.\<close>

definition label :: "MariaDBDatabase \<Rightarrow> string \<Rightarrow> string" where
  "label inst k = (case Labels inst k of None \<Rightarrow> [] | Some v \<Rightarrow> v)"

definition hashLookup :: "(string \<rightharpoonup> string) option \<Rightarrow> string \<Rightarrow> string" where
  "hashLookup h k = (case h of None \<Rightarrow> [] | Some m \<Rightarrow> (case m k of None \<Rightarrow> [] | Some v \<Rightarrow> v))"

text \<open>
  Lines 205-208: \<open>make\<close> the map when it is nil, then store the entry.
\<close>

definition hashStore :: "(string \<rightharpoonup> string) option \<Rightarrow> string \<Rightarrow> string \<Rightarrow> (string \<rightharpoonup> string) option" where
  "hashStore h k v = (case h of None \<Rightarrow> Some (Map.empty(k \<mapsto> v)) | Some m \<Rightarrow> Some (m(k \<mapsto> v)))"

text \<open>
  The interface \<open>client.Object\<close> over the two backing-store variants. In the source the
  first result of \<open>getDatabaseObject\<close> is the same pointer as the variant it returns; the
  model passes values, and the fields read through the variant pointers after the
  finalizer step (name, spec, status) are fields that step does not write.
\<close>

datatype client_Object = GaleraObject Galera | MariaDBObject MariaDB

fun GetFinalizers :: "client_Object \<Rightarrow> string list" where
  "GetFinalizers (GaleraObject g) = Galera_Finalizers g"
| "GetFinalizers (MariaDBObject m) = MariaDB_Finalizers m"

fun SetFinalizers :: "client_Object \<Rightarrow> string list \<Rightarrow> client_Object" where
  "SetFinalizers (GaleraObject g) f = GaleraObject (g\<lparr>Galera_Finalizers := f\<rparr>)"
| "SetFinalizers (MariaDBObject m) f = MariaDBObject (m\<lparr>MariaDB_Finalizers := f\<rparr>)"

text \<open>
  \<open>controllerutil.AddFinalizer\<close> and \<open>controllerutil.RemoveFinalizer\<close> on the finalizer list
  of an object: the new list and whether it changed. Adding a token that is present and
  removing one that is absent change nothing.
\<close>

definition AddFinalizer :: "string list \<Rightarrow> string \<Rightarrow> bool \<times> string list" where
  "AddFinalizer f finalizer =
     (if finalizer \<in> set f then (False, f) else (True, f @ [finalizer]))"

definition RemoveFinalizer :: "string list \<Rightarrow> string \<Rightarrow> bool \<times> string list" where
  "RemoveFinalizer f finalizer =
     (let kept = filter (\<lambda>e. e \<noteq> finalizer) f in (length f \<noteq> length kept, kept))"

section \<open>The world outside the reconciler\<close>

text \<open>
  The object store answers a \<open>Get\<close> for each kind and key with the object or an error
  (\<open>NotFound\<close> when there is none). The fault fields are what \<open>helper.NewHelper\<close> answers,
  what \<open>Client.Update\<close> answers, and what the store answers to a patch of the claim that
  \<open>helper.PatchInstance\<close> sends: \<open>None\<close> is success. \<open>jobs\<close> is the state of the provisioning
  substrate, which only the job executor reads and writes.
\<close>

record 'js world =
  claims :: "NamespacedName \<Rightarrow> error + MariaDBDatabase"
  galeras :: "NamespacedName \<Rightarrow> error + Galera"
  mariadbs :: "NamespacedName \<Rightarrow> error + MariaDB"
  helperFault :: "error option"
  updateFault :: "error option"
  patchFault :: "error option"
  jobs :: 'js

text \<open>
  \<open>Client.Get\<close> of a claim. The store removes an object that is marked for deletion as
  soon as its finalizer list is empty, so such a claim is answered with \<open>NotFound\<close>.
\<close>

definition GetClaim :: "'js world \<Rightarrow> NamespacedName \<Rightarrow> error + MariaDBDatabase" where
  "GetClaim w key =
     (case claims w key of
        Inl e \<Rightarrow> Inl e
      | Inr inst \<Rightarrow>
          if \<not> IsZero (DeletionTimestamp inst) \<and> Finalizers inst = [] then Inl NotFound else Inr inst)"

text \<open>
  \<open>Client.Update\<close>: on success the store holds the object under its own key.
\<close>

fun Update :: "'js world \<Rightarrow> client_Object \<Rightarrow> error option \<times> 'js world" where
  "Update w (GaleraObject g) =
     (case updateFault w of
        Some e \<Rightarrow> (Some e, w)
      | None \<Rightarrow> (None, w\<lparr>galeras := (galeras w)((Galera_Namespace g, Galera_Name g) := Inr g)\<rparr>))"
| "Update w (MariaDBObject m) =
     (case updateFault w of
        Some e \<Rightarrow> (Some e, w)
      | None \<Rightarrow> (None, w\<lparr>mariadbs := (mariadbs w)((MariaDB_Namespace m, MariaDB_Name m) := Inr m)\<rparr>))"

text \<open>
  The helper of lib-common: it carries the finalizer token of the reconciler (the kind
  of the claim) and the claim as it was fetched.
\<close>

record Helper =
  finalizer :: string
  beforeObject :: MariaDBDatabase

definition GetFinalizer :: "Helper \<Rightarrow> string" where
  "GetFinalizer h = finalizer h"

text \<open>
  \<open>helper.PatchInstance\<close> of lib-common compares the claim with the copy the helper took
  when it was made. When nothing changed (neither the metadata nor the status, which is
  all of the claim here) it sends nothing and answers nil. Otherwise it sends the patch:
  on success the store holds the claim as the reconciler leaves it, under its own key; a
  \<open>NotFound\<close> answer of the store is ignored; any other error is returned.
\<close>

definition PatchInstance :: "'js world \<Rightarrow> Helper \<Rightarrow> MariaDBDatabase \<Rightarrow> error option \<times> 'js world" where
  "PatchInstance w h inst =
     (if inst = beforeObject h then (None, w)
      else
        (case patchFault w of
           Some e \<Rightarrow> (IgnoreNotFound (Some e), w)
         | None \<Rightarrow> (None, w\<lparr>claims := (claims w)((Namespace inst, Name inst) := Inr inst)\<rparr>)))"

section \<open>The job executor and the job definition\<close>

text \<open>
  \<open>job.NewJob(jobDef, jobType, preserve, timeout, beforeHash)\<close> and what \<open>DoJob\<close> leaves
  behind: its result and error, and the answers of \<open>HasChanged\<close> and \<open>GetHash\<close>.
\<close>

record 'jd Job =
  jobDef :: 'jd
  jobType :: string
  preserve :: bool
  timeout :: Duration
  beforeHash :: string

definition NewJob :: "'jd \<Rightarrow> string \<Rightarrow> bool \<Rightarrow> Duration \<Rightarrow> string \<Rightarrow> 'jd Job" where
  "NewJob jd ty p t h = \<lparr>jobDef = jd, jobType = ty, preserve = p, timeout = t, beforeHash = h\<rparr>"

record JobReport =
  ctrlResult :: ctrl_Result
  jobErr :: "error option"
  HasChanged :: bool
  GetHash :: string

text \<open>
  What \<open>Reconcile\<close> takes from outside this file: the kind of the claim (the helper's
  finalizer token), the constant \<open>databasev1beta1.DbCreateHash\<close>, the builder of the job
  definition \<open>mariadb.DbDatabaseJob\<close> and the executor \<open>DoJob\<close>, which runs on the state
  of the provisioning substrate (the helper it is handed is its way to that state).
\<close>

record ('jd, 'js) env =
  Kind :: string
  DbCreateHash :: string
  DbDatabaseJob :: "MariaDBDatabase \<Rightarrow> string \<Rightarrow> string \<Rightarrow> string \<Rightarrow> error + 'jd"
  DoJob :: "'jd Job \<Rightarrow> 'js \<Rightarrow> JobReport \<times> 'js"

definition NewHelper :: "('jd, 'js) env \<Rightarrow> 'js world \<Rightarrow> MariaDBDatabase \<Rightarrow> error + Helper" where
  "NewHelper env w inst =
     (case helperFault w of
        Some e \<Rightarrow> Inl e
      | None \<Rightarrow> Inr \<lparr>finalizer = Kind env, beforeObject = inst\<rparr>)"

section \<open>Events and outcomes\<close>

text \<open>
  The calls \<open>Reconcile\<close> makes on the outside world, in the order it makes them;
  \<open>EvPatchInstance\<close> is the call of \<open>helper.PatchInstance\<close> with the claim it is handed.
  \<open>EvVariantCheck\<close> is not a call: it marks line 160, with the two variant pointers as they
  are there.
\<close>

datatype 'jd event =
    EvGetClaim NamespacedName
  | EvNewHelper
  | EvGetGalera NamespacedName
  | EvGetMariaDB NamespacedName
  | EvUpdate client_Object
  | EvVariantCheck "Galera option" "MariaDB option"
  | EvDoJob "'jd Job"
  | EvPatchInstance MariaDBDatabase

text \<open>The \<open>return\<close> statements of \<open>Reconcile\<close>, by what they end and their line.\<close>

datatype exit_point =
    ExitGetFailed            \<comment> \<open>line 84\<close>
  | ExitHelperFailed         \<comment> \<open>line 95\<close>
  | ExitDetachUpdateFailed   \<comment> \<open>line 117\<close>
  | ExitDeleted              \<comment> \<open>line 126\<close>
  | ExitStoreNotFound        \<comment> \<open>line 133\<close>
  | ExitStoreError           \<comment> \<open>line 136\<close>
  | ExitAttachUpdateFailed   \<comment> \<open>line 144\<close>
  | ExitFinalizerAdded       \<comment> \<open>line 150\<close>
  | ExitGaleraNotReady       \<comment> \<open>line 163\<close>
  | ExitMariaDBNotReady      \<comment> \<open>line 172\<close>
  | ExitJobDefFailed         \<comment> \<open>line 183\<close>
  | ExitJobRequeue           \<comment> \<open>line 199\<close>
  | ExitJobFailed            \<comment> \<open>line 202\<close>
  | ExitCompleted            \<comment> \<open>line 215\<close>
  | ExitNilDereference       \<comment> \<open>lines 114 and 141 with a nil \<open>db\<close>: a panic\<close>

text \<open>
  What the body of \<open>Reconcile\<close> (lines 107-215) leaves when it returns: the named results
  as the \<open>return\<close> statement sets them, the claim as it is in memory, the world and the
  events.
\<close>

record ('jd, 'js) body_out =
  b_result :: ctrl_Result
  b_err :: "error option"
  b_exit :: exit_point
  b_inst :: MariaDBDatabase
  b_world :: "'js world"
  b_trace :: "'jd event list"

definition ret ::
  "ctrl_Result \<Rightarrow> error option \<Rightarrow> exit_point \<Rightarrow> MariaDBDatabase \<Rightarrow> 'js world \<Rightarrow> 'jd event list
     \<Rightarrow> ('jd, 'js) body_out" where
  "ret r e x i w t = \<lparr>b_result = r, b_err = e, b_exit = x, b_inst = i, b_world = w, b_trace = t\<rparr>"

text \<open>What one invocation of \<open>Reconcile\<close> gives its caller and leaves behind.\<close>

record ('jd, 'js) outcome =
  result :: ctrl_Result
  err :: "error option"
  exit :: exit_point
  world :: "'js world"
  trace :: "'jd event list"

section \<open>getDatabaseObject (lines 226-261)\<close>

definition getDatabaseObject ::
  "'js world \<Rightarrow> MariaDBDatabase
     \<Rightarrow> (client_Object option \<times> Galera option \<times> MariaDB option \<times> error option) \<times> 'jd event list" where
  "getDatabaseObject w inst =
     (let objectKey = (Namespace inst, label inst ''dbName'') in
      case galeras w objectKey of
        Inr dbGalera \<Rightarrow>
          ((Some (GaleraObject dbGalera), Some dbGalera, None, None), [EvGetGalera objectKey])
      | Inl e \<Rightarrow>
          if \<not> IsNotFound (Some e) then ((None, None, None, Some e), [EvGetGalera objectKey])
          else
            (case mariadbs w objectKey of
               Inl e2 \<Rightarrow>
                 ((None, None, None, Some e2), [EvGetGalera objectKey, EvGetMariaDB objectKey])
             | Inr dbMariadb \<Rightarrow>
                 ((Some (MariaDBObject dbMariadb), None, Some dbMariadb, None),
                  [EvGetGalera objectKey, EvGetMariaDB objectKey])))"

section \<open>Reconcile (lines 75-216)\<close>

text \<open>The token the claim leaves on its backing store: \<open>fmt.Sprintf("%s-%s", ...)\<close>.\<close>

definition dbFinalizer :: "Helper \<Rightarrow> MariaDBDatabase \<Rightarrow> string" where
  "dbFinalizer h inst = GetFinalizer h @ ''-'' @ Name inst"

text \<open>
  Lines 114-119 and 141-146: when the finalizer list of the backing store changed, write
  the object back with \<open>Update\<close>. The result is the error of the update and the world;
  \<open>persistEvents\<close> is the call made.
\<close>

definition persistFinalizers ::
  "'js world \<Rightarrow> client_Object \<Rightarrow> bool \<times> string list \<Rightarrow> error option \<times> 'js world" where
  "persistFinalizers w d upd =
     (if fst upd then Update w (SetFinalizers d (snd upd)) else (None, w))"

definition persistEvents :: "client_Object \<Rightarrow> bool \<times> string list \<Rightarrow> 'jd event list" where
  "persistEvents d upd = (if fst upd then [EvUpdate (SetFinalizers d (snd upd))] else [])"

text \<open>Lines 112-127: the claim is being deleted.\<close>

definition reconcileDelete ::
  "'js world \<Rightarrow> Helper \<Rightarrow> MariaDBDatabase \<Rightarrow> client_Object option \<Rightarrow> error option
     \<Rightarrow> ('jd, 'js) body_out" where
  "reconcileDelete w h inst db e =
     (let released = inst\<lparr>Finalizers := snd (RemoveFinalizer (Finalizers inst) (GetFinalizer h))\<rparr> in
      if e = None then
        (case db of
           None \<Rightarrow>
             ret Result_empty (Some (OtherError ''nil pointer dereference'')) ExitNilDereference inst w []
         | Some d \<Rightarrow>
             (case persistFinalizers w d (RemoveFinalizer (GetFinalizers d) (dbFinalizer h inst)) of
                (ue, w') \<Rightarrow>
                  if ue \<noteq> None
                  then ret Result_empty ue ExitDetachUpdateFailed inst w'
                         (persistEvents d (RemoveFinalizer (GetFinalizers d) (dbFinalizer h inst)))
                  else ret Result_empty None ExitDeleted released w'
                         (persistEvents d (RemoveFinalizer (GetFinalizers d) (dbFinalizer h inst)))))
      else ret Result_empty None ExitDeleted released w [])"

text \<open>
  Lines 160-178: the readiness check per variant. Not ready is the exit taken; ready is
  the name, the secret and the container image read from the variant. With both
  pointers nil the three strings keep their zero value.
\<close>

definition checkVariant ::
  "Galera option \<Rightarrow> MariaDB option \<Rightarrow> exit_point + (string \<times> string \<times> string)" where
  "checkVariant dbGalera dbMariadb =
     (case dbGalera of
        Some g \<Rightarrow>
          if \<not> Galera_Status_Bootstrapped g then Inl ExitGaleraNotReady
          else Inr (Galera_Name g, Galera_Spec_Secret g, Galera_Spec_ContainerImage g)
      | None \<Rightarrow>
          (case dbMariadb of
             Some m \<Rightarrow>
               if MariaDB_Status_DbInitHash m = [] then Inl ExitMariaDBNotReady
               else Inr (MariaDB_Name m, MariaDB_Spec_Secret m, MariaDB_Spec_ContainerImage m)
           | None \<Rightarrow> Inr ([], [], [])))"

text \<open>Lines 198-215: what \<open>Reconcile\<close> makes of the executor's report.\<close>

definition finishJob ::
  "('jd, 'js) env \<Rightarrow> 'js world \<Rightarrow> MariaDBDatabase \<Rightarrow> 'jd event list \<Rightarrow> JobReport \<Rightarrow> ('jd, 'js) body_out" where
  "finishJob env w inst tr rep =
     (if ctrlResult rep \<noteq> Result_empty then ret (ctrlResult rep) None ExitJobRequeue inst w tr
      else if jobErr rep \<noteq> None then ret Result_empty (jobErr rep) ExitJobFailed inst w tr
      else
        ret Result_empty None ExitCompleted
          ((if HasChanged rep
            then inst\<lparr>Status_Hash := hashStore (Status_Hash inst) (DbCreateHash env) (GetHash rep)\<rparr>
            else inst)\<lparr>Status_Completed := True\<rparr>) w tr)"

text \<open>
  The claim as \<open>finishJob\<close> leaves it in memory, given the report of the executor, written
  out: the hash entry is stored when the job has changed, and the claim is completed,
  only when the executor is done without error.
\<close>

definition reported :: "('jd, 'js) env \<Rightarrow> MariaDBDatabase \<Rightarrow> JobReport \<Rightarrow> MariaDBDatabase" where
  "reported env inst rep =
     (if ctrlResult rep = Result_empty \<and> jobErr rep = None
      then inst\<lparr>Status_Hash :=
                  (if HasChanged rep
                   then hashStore (Status_Hash inst) (DbCreateHash env) (GetHash rep)
                   else Status_Hash inst),
                Status_Completed := True\<rparr>
      else inst)"

text \<open>
  Lines 157-215: the readiness check, the job definition, the job executor and the
  status.
\<close>

definition reconcileNormal ::
  "('jd, 'js) env \<Rightarrow> 'js world \<Rightarrow> Helper \<Rightarrow> MariaDBDatabase \<Rightarrow> Galera option \<Rightarrow> MariaDB option
     \<Rightarrow> 'jd event list \<Rightarrow> ('jd, 'js) body_out" where
  "reconcileNormal env w h inst dbGalera dbMariadb tr =
     (case checkVariant dbGalera dbMariadb of
        Inl x \<Rightarrow>
          ret \<lparr>Requeue = False, RequeueAfter = 10 * Second\<rparr> None x inst w
            (tr @ [EvVariantCheck dbGalera dbMariadb])
      | Inr (dbName, dbSecret, dbContainerImage) \<Rightarrow>
          (case DbDatabaseJob env inst dbName dbSecret dbContainerImage of
             Inl je \<Rightarrow>
               ret Result_empty (Some je) ExitJobDefFailed inst w (tr @ [EvVariantCheck dbGalera dbMariadb])
           | Inr jd \<Rightarrow>
               (let dbCreateHash = hashLookup (Status_Hash inst) (DbCreateHash env);
                    dbCreateJob = NewJob jd (DbCreateHash env) False (5 * Second) dbCreateHash
                in finishJob env (w\<lparr>jobs := snd (DoJob env dbCreateJob (jobs w))\<rparr>) inst
                     (tr @ [EvVariantCheck dbGalera dbMariadb, EvDoJob dbCreateJob])
                     (fst (DoJob env dbCreateJob (jobs w))))))"

text \<open>
  Lines 130-152: the claim is active; wait for the backing store, then the finalizers.
  The test of line 140 is always true here (the other case has returned at line 126), and
  the model does not repeat it.
\<close>

definition reconcileActive ::
  "('jd, 'js) env \<Rightarrow> 'js world \<Rightarrow> Helper \<Rightarrow> MariaDBDatabase
     \<Rightarrow> client_Object option \<Rightarrow> Galera option \<Rightarrow> MariaDB option \<Rightarrow> error option
     \<Rightarrow> ('jd, 'js) body_out" where
  "reconcileActive env w h inst db dbGalera dbMariadb e =
     (if e \<noteq> None then
        (if IsNotFound e
         then ret \<lparr>Requeue = False, RequeueAfter = 10 * Second\<rparr> None ExitStoreNotFound inst w []
         else ret Result_empty e ExitStoreError inst w [])
      else
        (case db of
           None \<Rightarrow>
             ret Result_empty (Some (OtherError ''nil pointer dereference'')) ExitNilDereference inst w []
         | Some d \<Rightarrow>
             (case persistFinalizers w d (AddFinalizer (GetFinalizers d) (dbFinalizer h inst)) of
                (ue, w') \<Rightarrow>
                  if ue \<noteq> None
                  then ret Result_empty ue ExitAttachUpdateFailed inst w'
                         (persistEvents d (AddFinalizer (GetFinalizers d) (dbFinalizer h inst)))
                  else if fst (AddFinalizer (Finalizers inst) (GetFinalizer h))
                  then ret Result_empty None ExitFinalizerAdded
                         (inst\<lparr>Finalizers := snd (AddFinalizer (Finalizers inst) (GetFinalizer h))\<rparr>) w'
                         (persistEvents d (AddFinalizer (GetFinalizers d) (dbFinalizer h inst)))
                  else reconcileNormal env w' h inst dbGalera dbMariadb
                         (persistEvents d (AddFinalizer (GetFinalizers d) (dbFinalizer h inst))))))"

text \<open>Lines 107-215: everything after the deferred patch is registered.\<close>

definition reconcileBody ::
  "('jd, 'js) env \<Rightarrow> 'js world \<Rightarrow> Helper \<Rightarrow> MariaDBDatabase \<Rightarrow> ('jd, 'js) body_out" where
  "reconcileBody env w h inst =
     (case getDatabaseObject w inst of
        ((db, dbGalera, dbMariadb, e), tr0) \<Rightarrow>
          (let b = (if \<not> IsZero (DeletionTimestamp inst)
                    then reconcileDelete w h inst db e
                    else reconcileActive env w h inst db dbGalera dbMariadb e)
           in b\<lparr>b_trace := tr0 @ b_trace b\<rparr>))"

text \<open>
  Lines 99-105: the deferred function. It runs when the body returns: it calls
  \<open>PatchInstance\<close> of the helper on the claim as the body leaves it, and an error of that
  call replaces the error the body returned. The result is not touched.
\<close>

definition deferredPatch ::
  "NamespacedName \<Rightarrow> Helper \<Rightarrow> ('jd, 'js) body_out \<Rightarrow> ('jd, 'js) outcome" where
  "deferredPatch req h b =
     \<lparr>result = b_result b,
      err = (if fst (PatchInstance (b_world b) h (b_inst b)) \<noteq> None
             then fst (PatchInstance (b_world b) h (b_inst b)) else b_err b),
      exit = b_exit b,
      world = snd (PatchInstance (b_world b) h (b_inst b)),
      trace = [EvGetClaim req, EvNewHelper] @ b_trace b @ [EvPatchInstance (b_inst b)]\<rparr>"

text \<open>
  The whole function: fetch the claim, make the helper, register the deferred patch and
  run the body.
\<close>

definition Reconcile :: "('jd, 'js) env \<Rightarrow> 'js world \<Rightarrow> NamespacedName \<Rightarrow> ('jd, 'js) outcome" where
  "Reconcile env w req =
     (case GetClaim w req of
        Inl e \<Rightarrow>
          \<lparr>result = Result_empty, err = IgnoreNotFound (Some e), exit = ExitGetFailed,
           world = w, trace = [EvGetClaim req]\<rparr>
      | Inr inst \<Rightarrow>
          (case NewHelper env w inst of
             Inl e \<Rightarrow>
               \<lparr>result = Result_empty, err = Some e, exit = ExitHelperFailed,
                world = w, trace = [EvGetClaim req, EvNewHelper]\<rparr>
           | Inr h \<Rightarrow> deferredPatch req h (reconcileBody env w h inst)))"

section \<open>Example worlds\<close>

text \<open>
  Concrete inputs for the examples below: the claim \<open>keystone\<close> in the namespace
  \<open>openstack\<close>, whose label \<open>dbName\<close> names the backing store \<open>openstack-db\<close>.
\<close>

definition noObjects :: "NamespacedName \<Rightarrow> error + 'a" where
  "noObjects = (\<lambda>key. Inl NotFound)"

definition demoReq :: NamespacedName where
  "demoReq = (''openstack'', ''keystone'')"

definition demoKey :: NamespacedName where
  "demoKey = (''openstack'', ''openstack-db'')"

definition demoClaim :: MariaDBDatabase where
  "demoClaim =
     \<lparr>Name = ''keystone'', Namespace = ''openstack'', Labels = [''dbName'' \<mapsto> ''openstack-db''],
      DeletionTimestamp = None, Finalizers = [], Status_Hash = None, Status_Completed = False\<rparr>"

definition demoGalera :: Galera where
  "demoGalera =
     \<lparr>Galera_Name = ''openstack-db'', Galera_Namespace = ''openstack'', Galera_Finalizers = [],
      Galera_Spec_Secret = ''osp-secret'', Galera_Spec_ContainerImage = ''mariadb:10'',
      Galera_Status_Bootstrapped = False\<rparr>"

definition demoMariaDB :: MariaDB where
  "demoMariaDB =
     \<lparr>MariaDB_Name = ''openstack-db'', MariaDB_Namespace = ''openstack'', MariaDB_Finalizers = [],
      MariaDB_Spec_Secret = ''osp-secret'', MariaDB_Spec_ContainerImage = ''mariadb:10'',
      MariaDB_Status_DbInitHash = []\<rparr>"

text \<open>
  An executor for the examples, after the contract of the Job Executor: the hash of a job
  definition is the definition itself; equal hashes mean done and unchanged; otherwise a
  job is created when there is none, a running job is left alone and waited for, a
  failed job is an error and a succeeded job is done and changed.
\<close>

datatype job_state = JobRunning | JobSucceeded | JobFailed

definition demoDoJob :: "string Job \<Rightarrow> job_state option \<Rightarrow> JobReport \<times> job_state option" where
  "demoDoJob j js =
     (if jobDef j = beforeHash j
      then (\<lparr>ctrlResult = Result_empty, jobErr = None, HasChanged = False, GetHash = jobDef j\<rparr>, js)
      else
        (case js of
           None \<Rightarrow>
             (\<lparr>ctrlResult = \<lparr>Requeue = False, RequeueAfter = timeout j\<rparr>, jobErr = None,
               HasChanged = True, GetHash = jobDef j\<rparr>, Some JobRunning)
         | Some JobRunning \<Rightarrow>
             (\<lparr>ctrlResult = \<lparr>Requeue = False, RequeueAfter = timeout j\<rparr>, jobErr = None,
               HasChanged = True, GetHash = jobDef j\<rparr>, js)
         | Some JobFailed \<Rightarrow>
             (\<lparr>ctrlResult = Result_empty, jobErr = Some (OtherError ''job failed''),
               HasChanged = True, GetHash = jobDef j\<rparr>, js)
         | Some JobSucceeded \<Rightarrow>
             (\<lparr>ctrlResult = Result_empty, jobErr = None, HasChanged = True, GetHash = jobDef j\<rparr>, js)))"

definition demoEnv :: "(string, job_state option) env" where
  "demoEnv =
     \<lparr>Kind = ''MariaDBDatabase'', DbCreateHash = ''dbcreate'',
      DbDatabaseJob = (\<lambda>inst dbName dbSecret dbContainerImage.
                         Inr (Name inst @ ''@'' @ dbName @ ''/'' @ dbSecret @ ''/'' @ dbContainerImage)),
      DoJob = demoDoJob\<rparr>"

text \<open>
  The fresh world: the claim has just been created (no finalizer, no status) and its
  backing store is a Galera that has not bootstrapped yet. Nothing fails.
\<close>

definition demoWorld :: "job_state option world" where
  "demoWorld =
     \<lparr>claims = noObjects(demoReq := Inr demoClaim),
      galeras = noObjects(demoKey := Inr demoGalera),
      mariadbs = noObjects,
      helperFault = None, updateFault = None, patchFault = None, jobs = None\<rparr>"

text \<open>The claim and the Galera with both finalizers attached.\<close>

definition attachedClaim :: MariaDBDatabase where
  "attachedClaim = demoClaim\<lparr>Finalizers := [''MariaDBDatabase'']\<rparr>"

definition attachedGalera :: Galera where
  "attachedGalera = demoGalera\<lparr>Galera_Finalizers := [''MariaDBDatabase-keystone'']\<rparr>"

definition attachedWorld :: "job_state option world" where
  "attachedWorld =
     demoWorld\<lparr>claims := noObjects(demoReq := Inr attachedClaim),
               galeras := noObjects(demoKey := Inr attachedGalera)\<rparr>"

text \<open>The same with the Galera bootstrapped and the job already succeeded.\<close>

definition readyWorld :: "job_state option world" where
  "readyWorld =
     attachedWorld\<lparr>galeras := noObjects(demoKey := Inr (attachedGalera\<lparr>Galera_Status_Bootstrapped := True\<rparr>)),
                   jobs := Some JobSucceeded\<rparr>"

text \<open>The same with the job still running.\<close>

definition runningWorld :: "job_state option world" where
  "runningWorld = readyWorld\<lparr>jobs := Some JobRunning\<rparr>"

text \<open>The fresh world, but with the Galera bootstrapped.\<close>

definition freshReadyWorld :: "job_state option world" where
  "freshReadyWorld =
     demoWorld\<lparr>galeras := noObjects(demoKey := Inr (demoGalera\<lparr>Galera_Status_Bootstrapped := True\<rparr>))\<rparr>"

text \<open>The attached claim, marked for deletion.\<close>

definition deletingWorld :: "job_state option world" where
  "deletingWorld =
     attachedWorld\<lparr>claims := noObjects(demoReq := Inr (attachedClaim\<lparr>DeletionTimestamp := Some 1700000000\<rparr>))\<rparr>"

text \<open>A Standalone object under the same name as the Galera of the fresh world.\<close>

definition bothWorld :: "job_state option world" where
  "bothWorld = demoWorld\<lparr>mariadbs := noObjects(demoKey := Inr demoMariaDB)\<rparr>"

text \<open>The fresh world where the Galera lookup is refused.\<close>

definition forbiddenWorld :: "job_state option world" where
  "forbiddenWorld = demoWorld\<lparr>galeras := noObjects(demoKey := Inl (OtherError ''forbidden''))\<rparr>"

text \<open>The fresh world where the store answers a patch of the claim with a conflict.\<close>

definition conflictWorld :: "job_state option world" where
  "conflictWorld = demoWorld\<lparr>patchFault := Some (OtherError ''conflict'')\<rparr>"

text \<open>
  A claim that was completed by an earlier invocation, with the hash of an older job
  definition, and the world where the job of its present definition has failed.
\<close>

definition completedClaim :: MariaDBDatabase where
  "completedClaim =
     attachedClaim\<lparr>Status_Hash := Some [''dbcreate'' \<mapsto> ''keystone@old-db/osp-secret/mariadb:9''],
                   Status_Completed := True\<rparr>"

definition failedWorld :: "job_state option world" where
  "failedWorld = readyWorld\<lparr>claims := noObjects(demoReq := Inr completedClaim), jobs := Some JobFailed\<rparr>"

text \<open>The helper \<open>NewHelper\<close> makes for a claim in the examples.\<close>

definition demoHelper :: "MariaDBDatabase \<Rightarrow> Helper" where
  "demoHelper inst = \<lparr>finalizer = ''MariaDBDatabase'', beforeObject = inst\<rparr>"

text \<open>The fresh world without any backing store under the name the claim gives.\<close>

definition missingWorld :: "job_state option world" where
  "missingWorld = demoWorld\<lparr>galeras := noObjects\<rparr>"

text \<open>
  An executor that clears the ground before it builds. The substrate holds at most one
  job, with the definition it was made from. A finished job that was made from another
  definition is deleted, and the run asks to be run again; the run after that finds no job
  and creates it. Otherwise it behaves as the executor above.
\<close>

definition cleaningDoJob ::
  "string Job \<Rightarrow> (string \<times> job_state) option \<Rightarrow> JobReport \<times> (string \<times> job_state) option" where
  "cleaningDoJob j js =
     (if jobDef j = beforeHash j
      then (\<lparr>ctrlResult = Result_empty, jobErr = None, HasChanged = False, GetHash = jobDef j\<rparr>, js)
      else
        (case js of
           None \<Rightarrow>
             (\<lparr>ctrlResult = \<lparr>Requeue = False, RequeueAfter = timeout j\<rparr>, jobErr = None,
               HasChanged = True, GetHash = jobDef j\<rparr>, Some (jobDef j, JobRunning))
         | Some (d, st) \<Rightarrow>
             if d \<noteq> jobDef j \<and> st \<noteq> JobRunning
             then (\<lparr>ctrlResult = \<lparr>Requeue = False, RequeueAfter = timeout j\<rparr>, jobErr = None,
                    HasChanged = True, GetHash = jobDef j\<rparr>, None)
             else
               (case st of
                  JobRunning \<Rightarrow>
                    (\<lparr>ctrlResult = \<lparr>Requeue = False, RequeueAfter = timeout j\<rparr>, jobErr = None,
                      HasChanged = True, GetHash = jobDef j\<rparr>, js)
                | JobFailed \<Rightarrow>
                    (\<lparr>ctrlResult = Result_empty, jobErr = Some (OtherError ''job failed''),
                      HasChanged = True, GetHash = jobDef j\<rparr>, js)
                | JobSucceeded \<Rightarrow>
                    (\<lparr>ctrlResult = Result_empty, jobErr = None, HasChanged = True, GetHash = jobDef j\<rparr>,
                     js))))"

definition cleaningEnv :: "(string, (string \<times> job_state) option) env" where
  "cleaningEnv =
     \<lparr>Kind = ''MariaDBDatabase'', DbCreateHash = ''dbcreate'',
      DbDatabaseJob = (\<lambda>inst dbName dbSecret dbContainerImage.
                         Inr (Name inst @ ''@'' @ dbName @ ''/'' @ dbSecret @ ''/'' @ dbContainerImage)),
      DoJob = cleaningDoJob\<rparr>"

text \<open>
  Both finalizers attached, the Galera bootstrapped, the claim completed with the hash of
  an older job definition, and the succeeded job of that older definition still on the
  substrate.
\<close>

definition staleWorld :: "(string \<times> job_state) option world" where
  "staleWorld =
     \<lparr>claims = noObjects(demoReq := Inr completedClaim),
      galeras = noObjects(demoKey := Inr (attachedGalera\<lparr>Galera_Status_Bootstrapped := True\<rparr>)),
      mariadbs = noObjects,
      helperFault = None, updateFault = None, patchFault = None,
      jobs = Some (''keystone@old-db/osp-secret/mariadb:9'', JobSucceeded)\<rparr>"

section \<open>Basic facts\<close>

lemmas model_defs =
  Reconcile_def deferredPatch_def reconcileBody_def reconcileActive_def reconcileNormal_def
  reconcileDelete_def persistFinalizers_def persistEvents_def checkVariant_def finishJob_def getDatabaseObject_def
  GetClaim_def NewHelper_def PatchInstance_def ret_def dbFinalizer_def GetFinalizer_def
  AddFinalizer_def RemoveFinalizer_def IsZero_def IsNotFound_def IgnoreNotFound_def label_def
  hashLookup_def hashStore_def NewJob_def Result_empty_def Second_def Let_def

lemmas demo_defs =
  demoEnv_def demoWorld_def demoClaim_def demoGalera_def demoMariaDB_def demoReq_def demoKey_def
  noObjects_def demoDoJob_def attachedClaim_def attachedGalera_def attachedWorld_def
  readyWorld_def deletingWorld_def bothWorld_def forbiddenWorld_def demoHelper_def
  missingWorld_def freshReadyWorld_def conflictWorld_def completedClaim_def failedWorld_def
  cleaningDoJob_def cleaningEnv_def staleWorld_def runningWorld_def

text \<open>An update answers the update fault and touches nothing but the store of its kind.\<close>

lemma Update_fst: "fst (Update w d) = updateFault w"
  by (cases d; simp split: option.splits)

lemma Update_faults:
  "patchFault (snd (Update w d)) = patchFault w"
  "updateFault (snd (Update w d)) = updateFault w"
  "helperFault (snd (Update w d)) = helperFault w"
  "claims (snd (Update w d)) = claims w"
  "jobs (snd (Update w d)) = jobs w"
  by (cases d; simp split: option.splits)+

lemma persist_world:
  "patchFault (snd (persistFinalizers w d u)) = patchFault w"
  "updateFault (snd (persistFinalizers w d u)) = updateFault w"
  "helperFault (snd (persistFinalizers w d u)) = helperFault w"
  "claims (snd (persistFinalizers w d u)) = claims w"
  "jobs (snd (persistFinalizers w d u)) = jobs w"
  by (simp_all add: persistFinalizers_def Update_faults)


lemma persist_eq:
  "persistFinalizers w d u =
     (if fst u then (updateFault w, snd (Update w (SetFinalizers d (snd u)))) else (None, w))"
  by (simp add: persistFinalizers_def prod_eq_iff Update_fst)


lemma persist_trace:
  "EvPatchInstance i \<notin> set (persistEvents d u)"
  "EvDoJob j \<notin> set (persistEvents d u)"
  "EvVariantCheck g m \<notin> set (persistEvents d u)"
  by (simp_all add: persistEvents_def)

lemma finishJob_sel:
  "b_world (finishJob env w inst tr rep) = w"
  "b_trace (finishJob env w inst tr rep) = tr"
  "b_inst (finishJob env w inst tr rep) = reported env inst rep"
  by (simp_all add: finishJob_def ret_def reported_def)

text \<open>The body leaves the faults and the store of claims as they are.\<close>

lemma normal_world:
  "patchFault (b_world (reconcileNormal env w h inst g m tr)) = patchFault w"
  "updateFault (b_world (reconcileNormal env w h inst g m tr)) = updateFault w"
  "helperFault (b_world (reconcileNormal env w h inst g m tr)) = helperFault w"
  "claims (b_world (reconcileNormal env w h inst g m tr)) = claims w"
  "galeras (b_world (reconcileNormal env w h inst g m tr)) = galeras w"
  "mariadbs (b_world (reconcileNormal env w h inst g m tr)) = mariadbs w"
  by (simp_all add: reconcileNormal_def ret_def Let_def finishJob_sel split: sum.splits prod.splits)

lemma delete_world:
  "patchFault (b_world (reconcileDelete w h inst db e)) = patchFault w"
  "updateFault (b_world (reconcileDelete w h inst db e)) = updateFault w"
  "helperFault (b_world (reconcileDelete w h inst db e)) = helperFault w"
  "claims (b_world (reconcileDelete w h inst db e)) = claims w"
  "jobs (b_world (reconcileDelete w h inst db e)) = jobs w"
  by (simp_all add: reconcileDelete_def ret_def Let_def case_prod_beta persist_world split: option.splits)

lemma active_world:
  "patchFault (b_world (reconcileActive env w h inst db g m e)) = patchFault w"
  "updateFault (b_world (reconcileActive env w h inst db g m e)) = updateFault w"
  "helperFault (b_world (reconcileActive env w h inst db g m e)) = helperFault w"
  "claims (b_world (reconcileActive env w h inst db g m e)) = claims w"
  by (simp_all add: reconcileActive_def ret_def Let_def case_prod_beta normal_world persist_world
        split: option.splits)

lemma body_world:
  "patchFault (b_world (reconcileBody env w h inst)) = patchFault w"
  "updateFault (b_world (reconcileBody env w h inst)) = updateFault w"
  "helperFault (b_world (reconcileBody env w h inst)) = helperFault w"
  "claims (b_world (reconcileBody env w h inst)) = claims w"
  by (simp_all add: reconcileBody_def Let_def case_prod_beta active_world delete_world)

text \<open>The body along its two branches, once the resolution is known.\<close>

lemma body_delete:
  "getDatabaseObject w inst = ((db, g, m, e), tr0) \<Longrightarrow> \<not> IsZero (DeletionTimestamp inst) \<Longrightarrow>
     reconcileBody env w h inst =
       (reconcileDelete w h inst db e)\<lparr>b_trace := tr0 @ b_trace (reconcileDelete w h inst db e)\<rparr>"
  by (simp add: reconcileBody_def Let_def)

lemma body_active:
  "getDatabaseObject w inst = ((db, g, m, e), tr0) \<Longrightarrow> IsZero (DeletionTimestamp inst) \<Longrightarrow>
     reconcileBody env w h inst =
       (reconcileActive env w h inst db g m e)
         \<lparr>b_trace := tr0 @ b_trace (reconcileActive env w h inst db g m e)\<rparr>"
  by (simp add: reconcileBody_def Let_def)

text \<open>The deferred patch, field by field.\<close>

lemma PatchInstance_fst:
  "fst (PatchInstance w h inst) = (if inst = beforeObject h then None else IgnoreNotFound (patchFault w))"
  by (simp add: PatchInstance_def IgnoreNotFound_def IsNotFound_def split: option.splits)

lemma PatchInstance_snd:
  "snd (PatchInstance w h inst) =
     (if inst = beforeObject h \<or> patchFault w \<noteq> None then w
      else w\<lparr>claims := (claims w)((Namespace inst, Name inst) := Inr inst)\<rparr>)"
  by (auto simp: PatchInstance_def split: option.splits)

lemma PatchInstance_world:
  "helperFault (snd (PatchInstance w h inst)) = helperFault w"
  "updateFault (snd (PatchInstance w h inst)) = updateFault w"
  "patchFault (snd (PatchInstance w h inst)) = patchFault w"
  "galeras (snd (PatchInstance w h inst)) = galeras w"
  "mariadbs (snd (PatchInstance w h inst)) = mariadbs w"
  "jobs (snd (PatchInstance w h inst)) = jobs w"
  by (simp_all add: PatchInstance_snd)

lemma deferredPatch_sel:
  "result (deferredPatch req h b) = b_result b"
  "err (deferredPatch req h b) =
     (if b_inst b \<noteq> beforeObject h \<and> IgnoreNotFound (patchFault (b_world b)) \<noteq> None
      then IgnoreNotFound (patchFault (b_world b)) else b_err b)"
  "exit (deferredPatch req h b) = b_exit b"
  "trace (deferredPatch req h b) = [EvGetClaim req, EvNewHelper] @ b_trace b @ [EvPatchInstance (b_inst b)]"
  "jobs (world (deferredPatch req h b)) = jobs (b_world b)"
  "galeras (world (deferredPatch req h b)) = galeras (b_world b)"
  "mariadbs (world (deferredPatch req h b)) = mariadbs (b_world b)"
  by (auto simp: deferredPatch_def PatchInstance_fst PatchInstance_world)


lemma deferredPatch_unchanged:
  "b_inst b = beforeObject h \<Longrightarrow> world (deferredPatch req h b) = b_world b"
  by (simp add: deferredPatch_def PatchInstance_snd)

lemma NewHelper_fields:
  "NewHelper env w inst = Inr h \<Longrightarrow>
     beforeObject h = inst \<and> GetFinalizer h = Kind env \<and> helperFault w = None"
  by (auto simp: NewHelper_def GetFinalizer_def split: option.splits)

lemma Reconcile_fetched:
  "GetClaim w req = Inr inst \<Longrightarrow> NewHelper env w inst = Inr h \<Longrightarrow>
     Reconcile env w req = deferredPatch req h (reconcileBody env w h inst)"
  by (simp add: Reconcile_def)

text \<open>Adding a finalizer changes the claim; removing one changes it when it was there.\<close>

lemma claim_added: "inst\<lparr>Finalizers := Finalizers inst @ [t]\<rparr> \<noteq> inst"
proof
  assume "inst\<lparr>Finalizers := Finalizers inst @ [t]\<rparr> = inst"
  then have "Finalizers (inst\<lparr>Finalizers := Finalizers inst @ [t]\<rparr>) = Finalizers inst"
    by simp
  then show False by simp
qed

lemma filter_same: "(filter (\<lambda>e. e \<noteq> t) f = f) = (t \<notin> set f)"
  by (auto simp: filter_id_conv)

lemma claim_removed:
  "(inst\<lparr>Finalizers := filter (\<lambda>e. e \<noteq> t) (Finalizers inst)\<rparr> = inst) = (t \<notin> set (Finalizers inst))"
proof
  assume "inst\<lparr>Finalizers := filter (\<lambda>e. e \<noteq> t) (Finalizers inst)\<rparr> = inst"
  then have "Finalizers (inst\<lparr>Finalizers := filter (\<lambda>e. e \<noteq> t) (Finalizers inst)\<rparr>) = Finalizers inst"
    by simp
  then show "t \<notin> set (Finalizers inst)" by (simp add: filter_same)
next
  assume "t \<notin> set (Finalizers inst)"
  then show "inst\<lparr>Finalizers := filter (\<lambda>e. e \<noteq> t) (Finalizers inst)\<rparr> = inst"
    by (simp add: filter_same)
qed

text \<open>Which events each part of the body can make.\<close>

lemma getDatabaseObject_trace:
  "EvPatchInstance i \<notin> set (snd (getDatabaseObject w inst))"
  "EvDoJob j \<notin> set (snd (getDatabaseObject w inst))"
  "EvVariantCheck g m \<notin> set (snd (getDatabaseObject w inst))"
  by (simp_all add: getDatabaseObject_def Let_def split: sum.splits)



lemma delete_trace:
  "EvVariantCheck g' m' \<notin> set (b_trace (reconcileDelete w h inst db e))"
  "EvDoJob j \<notin> set (b_trace (reconcileDelete w h inst db e))"
  by (simp_all add: reconcileDelete_def ret_def Let_def case_prod_beta persist_trace split: option.splits)

lemma normal_variant:
  "EvVariantCheck g' m' \<in> set (b_trace (reconcileNormal env w h inst g m tr))
     \<Longrightarrow> (g' = g \<and> m' = m) \<or> EvVariantCheck g' m' \<in> set tr"
  by (auto simp: reconcileNormal_def ret_def Let_def finishJob_sel split: sum.splits prod.splits)

lemma active_variant:
  "EvVariantCheck g' m' \<in> set (b_trace (reconcileActive env w h inst db g m e))
     \<Longrightarrow> g' = g \<and> m' = m \<and> e = None"
  by (auto simp: reconcileActive_def ret_def case_prod_beta persist_trace
        split: option.splits if_splits dest!: normal_variant)

text \<open>A resolution without error has exactly one variant, and \<open>db\<close> is that variant.\<close>

lemma getDatabaseObject_cases:
  "getDatabaseObject w inst = ((db, dbGalera, dbMariadb, None), tr) \<Longrightarrow>
     (\<exists>g. dbGalera = Some g \<and> dbMariadb = None \<and> db = Some (GaleraObject g))
   \<or> (\<exists>m. dbMariadb = Some m \<and> dbGalera = None \<and> db = Some (MariaDBObject m))"
  by (auto simp: getDatabaseObject_def Let_def split: sum.splits if_splits)

lemma getDatabaseObject_result:
  fixes w :: "'js world"
  obtains db g m e and tr0 :: "'jd event list"
  where "getDatabaseObject w inst = ((db, g, m, e), tr0)"
  by (metis prod_cases3 surj_pair)

lemma body_variant:
  fixes env :: "('jd, 'js) env"
  assumes "EvVariantCheck g' m' \<in> set (b_trace (reconcileBody env w h inst))"
  shows "(g' = None) \<noteq> (m' = None)"
proof -
  obtain db g m e and tr0 :: "'jd event list"
    where r: "getDatabaseObject w inst = ((db, g, m, e), tr0)"
    by (rule getDatabaseObject_result)
  have tr0: "EvVariantCheck g' m' \<notin> set tr0"
    using r by (metis getDatabaseObject_trace(3) snd_conv)
  from assms r tr0
  have "EvVariantCheck g' m' \<in> set (b_trace (reconcileActive env w h inst db g m e))"
    by (auto simp: reconcileBody_def Let_def delete_trace split: if_splits)
  from active_variant[OF this] have "g' = g \<and> m' = m \<and> e = None" .
  with getDatabaseObject_cases[of w inst db g m tr0] r show ?thesis by auto
qed

lemma body_exit_no_nil:
  fixes env :: "('jd, 'js) env"
  shows "b_exit (reconcileBody env w h inst) \<noteq> ExitNilDereference"
proof -
  obtain db g m e and tr0 :: "'jd event list"
    where r: "getDatabaseObject w inst = ((db, g, m, e), tr0)"
    by (rule getDatabaseObject_result)
  have n: "b_exit (reconcileNormal env w' h inst g m tr) \<noteq> ExitNilDereference"
    for w' and tr :: "'jd event list"
    by (auto simp: reconcileNormal_def checkVariant_def finishJob_def ret_def Let_def
          split: sum.splits prod.splits option.splits if_splits)
  have "e = None \<Longrightarrow> db \<noteq> None"
    using getDatabaseObject_cases[of w inst db g m tr0] r by auto
  then show ?thesis using r n
    by (auto simp: reconcileBody_def reconcileActive_def reconcileDelete_def ret_def Let_def
          case_prod_beta split: option.splits if_splits)
qed

text \<open>
  The executor runs only on the active path, for a claim that carries its own finalizer,
  and the claim in memory afterwards is the claim at entry with the status that lines
  198-215 give it.
\<close>

lemma normal_dojob:
  assumes "EvDoJob j \<notin> set tr"
    and "EvDoJob j \<in> set (b_trace (reconcileNormal env w h inst g m tr))"
  shows "jobType j = DbCreateHash env
       \<and> beforeHash j = hashLookup (Status_Hash inst) (DbCreateHash env)
       \<and> b_inst (reconcileNormal env w h inst g m tr) = reported env inst (fst (DoJob env j (jobs w)))"
  using assms
  by (auto simp: reconcileNormal_def ret_def Let_def NewJob_def finishJob_sel
        split: sum.splits prod.splits)

lemma active_dojob:
  assumes "EvDoJob j \<in> set (b_trace (reconcileActive env w h inst db g m e))"
  shows "GetFinalizer h \<in> set (Finalizers inst)
       \<and> jobType j = DbCreateHash env
       \<and> beforeHash j = hashLookup (Status_Hash inst) (DbCreateHash env)
       \<and> b_inst (reconcileActive env w h inst db g m e) = reported env inst (fst (DoJob env j (jobs w)))"
  using assms
  by (auto simp: reconcileActive_def ret_def case_prod_beta persist_trace AddFinalizer_def
          persist_world
        split: option.splits if_splits dest!: normal_dojob[rotated])

lemma body_dojob:
  fixes env :: "('jd, 'js) env"
  assumes "EvDoJob j \<in> set (b_trace (reconcileBody env w h inst))"
  shows "GetFinalizer h \<in> set (Finalizers inst) \<and> IsZero (DeletionTimestamp inst)
       \<and> jobType j = DbCreateHash env
       \<and> beforeHash j = hashLookup (Status_Hash inst) (DbCreateHash env)
       \<and> b_inst (reconcileBody env w h inst) = reported env inst (fst (DoJob env j (jobs w)))"
proof -
  obtain db g m e and tr0 :: "'jd event list"
    where r: "getDatabaseObject w inst = ((db, g, m, e), tr0)"
    by (rule getDatabaseObject_result)
  have tr0: "EvDoJob j \<notin> set tr0"
    using r by (metis getDatabaseObject_trace(2) snd_conv)
  from assms r tr0 have z: "IsZero (DeletionTimestamp inst)"
    and a: "EvDoJob j \<in> set (b_trace (reconcileActive env w h inst db g m e))"
    by (auto simp: reconcileBody_def Let_def delete_trace split: if_splits)
  from active_dojob[OF a] z r show ?thesis
    by (simp add: reconcileBody_def Let_def)
qed

lemma hashLookup_hashStore: "hashLookup (hashStore h k v) k = v"
  by (simp add: hashLookup_def hashStore_def split: option.splits)

section \<open>Dependency resolution\<close>

text \<open>
  C5. Dependency resolution looks the Clustered (Galera) variant up first, under the name
  of the claim's \<open>dbName\<close> label. When that lookup succeeds it returns the Clustered
  variant at once, whatever its readiness and whatever the Standalone store holds under
  the same name, and makes no Standalone lookup. The Standalone (MariaDB) lookup is made
  exactly when the Clustered lookup fails with the does-not-exist error.
\<close>

theorem getDatabaseObject_galera_first:
  "(\<exists>rest. snd (getDatabaseObject w inst) = EvGetGalera (Namespace inst, label inst ''dbName'') # rest)
   \<and> (\<forall>g. galeras w (Namespace inst, label inst ''dbName'') = Inr g \<longrightarrow>
          getDatabaseObject w inst =
            ((Some (GaleraObject g), Some g, None, None),
             [EvGetGalera (Namespace inst, label inst ''dbName'')]))
   \<and> (\<forall>k. EvGetMariaDB k \<in> set (snd (getDatabaseObject w inst)) \<longleftrightarrow>
          k = (Namespace inst, label inst ''dbName'')
          \<and> galeras w (Namespace inst, label inst ''dbName'') = Inl NotFound)"
  by (auto simp: getDatabaseObject_def IsNotFound_def Let_def split: sum.splits)

text \<open>
  In the world where a Galera that has not bootstrapped and a MariaDB exist under the
  same name, the Galera is returned after the one lookup.
\<close>

theorem getDatabaseObject_galera_first_witness:
  "galeras bothWorld demoKey = Inr demoGalera
   \<and> \<not> Galera_Status_Bootstrapped demoGalera
   \<and> mariadbs bothWorld demoKey = Inr demoMariaDB
   \<and> getDatabaseObject bothWorld demoClaim =
        ((Some (GaleraObject demoGalera), Some demoGalera, None, None), [EvGetGalera demoKey])
   \<and> EvGetMariaDB demoKey \<notin> set (snd (getDatabaseObject bothWorld demoClaim))"
  using getDatabaseObject_galera_first[of bothWorld demoClaim]
  by (simp add: getDatabaseObject_def label_def demo_defs)

text \<open>
  C9. Whenever \<open>getDatabaseObject\<close> returns a nil error, exactly one of its Galera and
  MariaDB results is non-nil and its first result is that same variant. So the readiness
  check of \<open>Reconcile\<close> (line 160) is never reached with both variant pointers nil (nor
  with both set), and \<open>Reconcile\<close> never dereferences a nil \<open>db\<close>.
\<close>

theorem getDatabaseObject_one_variant:
  "(getDatabaseObject w inst = ((db, dbGalera, dbMariadb, None), tr) \<longrightarrow>
      (\<exists>g. dbGalera = Some g \<and> dbMariadb = None \<and> db = Some (GaleraObject g))
    \<or> (\<exists>m. dbMariadb = Some m \<and> dbGalera = None \<and> db = Some (MariaDBObject m)))
   \<and> (EvVariantCheck g' m' \<in> set (trace (Reconcile env w req)) \<longrightarrow> (g' = None) \<noteq> (m' = None))
   \<and> exit (Reconcile env w req) \<noteq> ExitNilDereference"
proof (intro conjI impI)
  assume "getDatabaseObject w inst = ((db, dbGalera, dbMariadb, None), tr)"
  then show "(\<exists>g. dbGalera = Some g \<and> dbMariadb = None \<and> db = Some (GaleraObject g))
    \<or> (\<exists>m. dbMariadb = Some m \<and> dbGalera = None \<and> db = Some (MariaDBObject m))"
    by (rule getDatabaseObject_cases)
next
  assume "EvVariantCheck g' m' \<in> set (trace (Reconcile env w req))"
  then show "(g' = None) \<noteq> (m' = None)"
    by (auto simp: Reconcile_def deferredPatch_sel split: sum.splits dest: body_variant)
next
  show "exit (Reconcile env w req) \<noteq> ExitNilDereference"
    by (simp add: Reconcile_def deferredPatch_sel body_exit_no_nil split: sum.splits)
qed

text \<open>
  With both finalizers attached and the Galera not bootstrapped, the resolution gives the
  Galera alone and the readiness check sees the Galera alone.
\<close>

theorem getDatabaseObject_one_variant_witness:
  "getDatabaseObject attachedWorld attachedClaim =
     ((Some (GaleraObject attachedGalera), Some attachedGalera, None, None),
      [EvGetGalera demoKey :: string event])
   \<and> EvVariantCheck (Some attachedGalera) None \<in> set (trace (Reconcile demoEnv attachedWorld demoReq))
   \<and> exit (Reconcile demoEnv attachedWorld demoReq) = ExitGaleraNotReady"
proof -
  have r: "getDatabaseObject attachedWorld attachedClaim =
     ((Some (GaleraObject attachedGalera), Some attachedGalera, None, None),
      [EvGetGalera demoKey :: string event])"
    by (simp add: getDatabaseObject_def label_def demo_defs)
  have t: "trace (Reconcile demoEnv attachedWorld demoReq) =
      [EvGetClaim demoReq, EvNewHelper, EvGetGalera demoKey, EvVariantCheck (Some attachedGalera) None,
       EvPatchInstance attachedClaim]"
    by (simp add: model_defs demo_defs)
  have x: "exit (Reconcile demoEnv attachedWorld demoReq) = ExitGaleraNotReady"
    by (simp add: model_defs demo_defs)
  show ?thesis
    using getDatabaseObject_one_variant[where w = attachedWorld and inst = attachedClaim
      and db = "Some (GaleraObject attachedGalera)" and dbGalera = "Some attachedGalera"
      and dbMariadb = None and tr = "[EvGetGalera demoKey]" and g' = "Some attachedGalera"
      and m' = None and env = demoEnv and req = demoReq]
    by (simp add: r t x)
qed

section \<open>The status and its patch\<close>

text \<open>
  C3 as stated fails for a claim that an earlier invocation has completed: the executor
  runs (the job definition has changed since) and reports an error, the status is not
  modified, and so the completed flag is still true after the failed attempt, in the
  claim handed to the final patch and in the store.
\<close>

theorem job_report_status_counterexample:
  "GetClaim failedWorld demoReq = Inr completedClaim
   \<and> EvDoJob (NewJob ''keystone@openstack-db/osp-secret/mariadb:10'' ''dbcreate'' False (5 * Second)
               ''keystone@old-db/osp-secret/mariadb:9'')
        \<in> set (trace (Reconcile demoEnv failedWorld demoReq))
   \<and> exit (Reconcile demoEnv failedWorld demoReq) = ExitJobFailed
   \<and> err (Reconcile demoEnv failedWorld demoReq) = Some (OtherError ''job failed'')
   \<and> last (trace (Reconcile demoEnv failedWorld demoReq)) = EvPatchInstance completedClaim
   \<and> Status_Completed completedClaim
   \<and> claims (world (Reconcile demoEnv failedWorld demoReq)) demoReq = Inr completedClaim"
proof -
  have t: "trace (Reconcile demoEnv failedWorld demoReq) =
      [EvGetClaim demoReq, EvNewHelper, EvGetGalera demoKey,
       EvVariantCheck (Some (attachedGalera\<lparr>Galera_Status_Bootstrapped := True\<rparr>)) None,
       EvDoJob (NewJob ''keystone@openstack-db/osp-secret/mariadb:10'' ''dbcreate'' False (5 * Second)
                  ''keystone@old-db/osp-secret/mariadb:9''),
       EvPatchInstance completedClaim]"
    by (simp add: model_defs demo_defs)
  have x: "exit (Reconcile demoEnv failedWorld demoReq) = ExitJobFailed"
    "err (Reconcile demoEnv failedWorld demoReq) = Some (OtherError ''job failed'')"
    by (simp_all add: model_defs demo_defs)
  have w: "claims (world (Reconcile demoEnv failedWorld demoReq)) demoReq = Inr completedClaim"
    by (simp add: model_defs demo_defs)
  have c: "GetClaim failedWorld demoReq = Inr completedClaim" "Status_Completed completedClaim"
    by (simp_all add: GetClaim_def IsZero_def demo_defs)
  show ?thesis
    by (simp add: t x w c)
qed

text \<open>
  C3, amended. In every invocation in which the job executor runs (on the claim \<open>inst\<close> as
  fetched, with the job \<open>j\<close>): the job is the \<open>DbCreateHash\<close> job with the stored hash as its
  last known hash. When the executor reports done without error (an empty result and no
  error), the claim handed to the final patch is the claim as fetched with the completed
  flag true and with the reported hash as the hash entry of \<open>DbCreateHash\<close> if and only if
  the executor reports a change (otherwise the hash map is as fetched). When the executor
  reports a requeue or an error, neither the hash map nor the completed flag is modified:
  the claim is handed over as fetched and the store of claims is left as it is, so no new
  hash is recorded and the completed flag is what it was at entry (false for a claim that
  has not been completed before, still true for one that has).
\<close>

theorem job_report_status:
  assumes "GetClaim w req = Inr inst" and "EvDoJob j \<in> set (trace (Reconcile env w req))"
  shows "jobType j = DbCreateHash env
       \<and> beforeHash j = hashLookup (Status_Hash inst) (DbCreateHash env)
       \<and> (let rep = fst (DoJob env j (jobs w)) in
            last (trace (Reconcile env w req)) =
              EvPatchInstance
                (if ctrlResult rep = Result_empty \<and> jobErr rep = None
                 then inst\<lparr>Status_Hash :=
                             (if HasChanged rep
                              then hashStore (Status_Hash inst) (DbCreateHash env) (GetHash rep)
                              else Status_Hash inst),
                           Status_Completed := True\<rparr>
                 else inst)
            \<and> hashLookup (hashStore (Status_Hash inst) (DbCreateHash env) (GetHash rep)) (DbCreateHash env)
                = GetHash rep
            \<and> (ctrlResult rep \<noteq> Result_empty \<or> jobErr rep \<noteq> None \<longrightarrow>
                 (\<forall>i. last (trace (Reconcile env w req)) = EvPatchInstance i \<longrightarrow>
                    Status_Hash i = Status_Hash inst \<and> Status_Completed i = Status_Completed inst)
                 \<and> claims (world (Reconcile env w req)) = claims w))"
proof -
  from assms obtain h where h: "NewHelper env w inst = Inr h"
    and d: "EvDoJob j \<in> set (b_trace (reconcileBody env w h inst))"
    by (auto simp: Reconcile_def deferredPatch_sel split: sum.splits)
  note o = Reconcile_fetched[OF assms(1) h]
  let ?rep = "fst (DoJob env j (jobs w))"
  from body_dojob[OF d] have ty: "jobType j = DbCreateHash env"
    and bh: "beforeHash j = hashLookup (Status_Hash inst) (DbCreateHash env)"
    and bi: "b_inst (reconcileBody env w h inst) = reported env inst ?rep"
    by simp_all
  have l: "last (trace (Reconcile env w req)) = EvPatchInstance (reported env inst ?rep)"
    by (simp add: o deferredPatch_sel bi)
  have u: "claims (world (Reconcile env w req)) = claims w"
    if "ctrlResult ?rep \<noteq> Result_empty \<or> jobErr ?rep \<noteq> None"
  proof -
    from that have "reported env inst ?rep = inst" by (auto simp: reported_def)
    with NewHelper_fields[OF h] have "b_inst (reconcileBody env w h inst) = beforeObject h"
      by (simp add: bi)
    then show ?thesis by (simp add: o deferredPatch_unchanged body_world)
  qed
  show ?thesis
    using ty bh u by (auto simp: Let_def l reported_def hashLookup_hashStore)
qed

text \<open>
  With the job succeeded and no hash stored, the executor runs and the claim is patched
  with the new hash and completed.
\<close>

theorem job_report_status_witness:
  "GetClaim readyWorld demoReq = Inr attachedClaim
   \<and> EvDoJob (NewJob ''keystone@openstack-db/osp-secret/mariadb:10'' ''dbcreate'' False (5 * Second) [])
        \<in> set (trace (Reconcile demoEnv readyWorld demoReq))
   \<and> last (trace (Reconcile demoEnv readyWorld demoReq)) =
        EvPatchInstance
          (attachedClaim\<lparr>Status_Hash := Some [''dbcreate'' \<mapsto> ''keystone@openstack-db/osp-secret/mariadb:10''],
                         Status_Completed := True\<rparr>)"
proof -
  let ?j = "NewJob ''keystone@openstack-db/osp-secret/mariadb:10'' ''dbcreate'' False (5 * Second) []"
  have c: "GetClaim readyWorld demoReq = Inr attachedClaim"
    by (simp add: GetClaim_def IsZero_def demo_defs)
  have t: "trace (Reconcile demoEnv readyWorld demoReq) =
      [EvGetClaim demoReq, EvNewHelper, EvGetGalera demoKey,
       EvVariantCheck (Some (attachedGalera\<lparr>Galera_Status_Bootstrapped := True\<rparr>)) None,
       EvDoJob ?j,
       EvPatchInstance
          (attachedClaim\<lparr>Status_Hash := Some [''dbcreate'' \<mapsto> ''keystone@openstack-db/osp-secret/mariadb:10''],
                         Status_Completed := True\<rparr>)]"
    by (simp add: model_defs demo_defs)
  have d: "fst (DoJob demoEnv ?j (jobs readyWorld)) =
     \<lparr>ctrlResult = Result_empty, jobErr = None, HasChanged = True,
      GetHash = ''keystone@openstack-db/osp-secret/mariadb:10''\<rparr>"
    by (simp add: demoEnv_def demoDoJob_def NewJob_def readyWorld_def)
  have m: "EvDoJob ?j \<in> set (trace (Reconcile demoEnv readyWorld demoReq))"
    by (simp add: t)
  have e: "DbCreateHash demoEnv = ''dbcreate''"
    by (simp add: demoEnv_def)
  show ?thesis
    using job_report_status[OF c m] c m
    by (simp add: d e hashStore_def attachedClaim_def demoClaim_def)
qed





section \<open>Waiting for the backing store\<close>

text \<open>
  C6. On the active path (claim fetched, helper made, no deletion marker), when
  dependency resolution fails: the error is \<open>NotFound\<close> exactly when neither variant
  exists; then \<open>Reconcile\<close> returns a requeue after ten seconds and no error. Any other
  error is returned as the error of \<open>Reconcile\<close>, with the empty result (no requeue). In
  both cases no object is updated, the claim is handed to \<open>PatchInstance\<close> as it was
  fetched, so that nothing is sent, and the world is left as it was: no finalizer is
  added or removed anywhere.
\<close>

theorem store_unresolved:
  assumes "GetClaim w req = Inr inst" and "NewHelper env w inst = Inr h"
    and "IsZero (DeletionTimestamp inst)"
    and "getDatabaseObject w inst = ((db, g, m, Some e), tr0)"
  shows "(e = NotFound \<longleftrightarrow>
            galeras w (Namespace inst, label inst ''dbName'') = Inl NotFound
            \<and> mariadbs w (Namespace inst, label inst ''dbName'') = Inl NotFound)
       \<and> (e = NotFound \<longrightarrow>
            result (Reconcile env w req) = \<lparr>Requeue = False, RequeueAfter = 10 * Second\<rparr>
            \<and> err (Reconcile env w req) = None
            \<and> exit (Reconcile env w req) = ExitStoreNotFound)
       \<and> (e \<noteq> NotFound \<longrightarrow>
            result (Reconcile env w req) = Result_empty
            \<and> err (Reconcile env w req) = Some e
            \<and> exit (Reconcile env w req) = ExitStoreError)
       \<and> trace (Reconcile env w req) = [EvGetClaim req, EvNewHelper] @ tr0 @ [EvPatchInstance inst]
       \<and> (\<forall>d. EvUpdate d \<notin> set (trace (Reconcile env w req)))
       \<and> world (Reconcile env w req) = w"
proof -
  have k: "e = NotFound \<longleftrightarrow>
            galeras w (Namespace inst, label inst ''dbName'') = Inl NotFound
            \<and> mariadbs w (Namespace inst, label inst ''dbName'') = Inl NotFound"
    using assms(4) by (auto simp: getDatabaseObject_def Let_def IsNotFound_def split: sum.splits if_splits)
  have u: "EvUpdate d \<notin> set tr0" for d
    using assms(4) by (auto simp: getDatabaseObject_def Let_def split: sum.splits if_splits)
  from NewHelper_fields[OF assms(2)] have b: "beforeObject h = inst" by simp
  have i: "b_inst (reconcileBody env w h inst) = beforeObject h"
    "b_world (reconcileBody env w h inst) = w"
    by (simp_all add: body_active[OF assms(4,3)] reconcileActive_def ret_def b)
  have w: "world (Reconcile env w req) = w"
    by (simp add: Reconcile_fetched[OF assms(1,2)] deferredPatch_unchanged i)
  have "result (Reconcile env w req) =
          (if e = NotFound then \<lparr>Requeue = False, RequeueAfter = 10 * Second\<rparr> else Result_empty)"
    and "err (Reconcile env w req) = (if e = NotFound then None else Some e)"
    and "exit (Reconcile env w req) = (if e = NotFound then ExitStoreNotFound else ExitStoreError)"
    and "trace (Reconcile env w req) = [EvGetClaim req, EvNewHelper] @ tr0 @ [EvPatchInstance inst]"
    by (simp_all add: Reconcile_fetched[OF assms(1,2)] body_active[OF assms(4,3)] deferredPatch_sel
          reconcileActive_def ret_def IsNotFound_def b)
  with k u w show ?thesis by simp
qed

text \<open>
  Scenario A: the fresh claim names a backing store that does not exist. And the fresh
  claim whose Galera lookup is refused: the refusal is the error returned.
\<close>

theorem store_unresolved_witness:
  "GetClaim missingWorld demoReq = Inr demoClaim
   \<and> NewHelper demoEnv missingWorld demoClaim = Inr (demoHelper demoClaim)
   \<and> IsZero (DeletionTimestamp demoClaim)
   \<and> getDatabaseObject missingWorld demoClaim =
        ((None, None, None, Some NotFound), [EvGetGalera demoKey, EvGetMariaDB demoKey :: string event])
   \<and> result (Reconcile demoEnv missingWorld demoReq) = \<lparr>Requeue = False, RequeueAfter = 10 * Second\<rparr>
   \<and> err (Reconcile demoEnv missingWorld demoReq) = None
   \<and> trace (Reconcile demoEnv missingWorld demoReq) =
        [EvGetClaim demoReq, EvNewHelper, EvGetGalera demoKey, EvGetMariaDB demoKey,
         EvPatchInstance demoClaim]
   \<and> world (Reconcile demoEnv missingWorld demoReq) = missingWorld
   \<and> GetClaim forbiddenWorld demoReq = Inr demoClaim
   \<and> NewHelper demoEnv forbiddenWorld demoClaim = Inr (demoHelper demoClaim)
   \<and> getDatabaseObject forbiddenWorld demoClaim =
        ((None, None, None, Some (OtherError ''forbidden'')), [EvGetGalera demoKey :: string event])
   \<and> result (Reconcile demoEnv forbiddenWorld demoReq) = Result_empty
   \<and> err (Reconcile demoEnv forbiddenWorld demoReq) = Some (OtherError ''forbidden'')"
proof -
  have c: "GetClaim missingWorld demoReq = Inr demoClaim"
    by (simp add: GetClaim_def IsZero_def demo_defs)
  have h: "NewHelper demoEnv missingWorld demoClaim = Inr (demoHelper demoClaim)"
    by (simp add: NewHelper_def demo_defs)
  have z: "IsZero (DeletionTimestamp demoClaim)"
    by (simp add: IsZero_def demoClaim_def)
  have r: "getDatabaseObject missingWorld demoClaim =
        ((None, None, None, Some NotFound), [EvGetGalera demoKey, EvGetMariaDB demoKey :: string event])"
    by (simp add: getDatabaseObject_def label_def IsNotFound_def Let_def demo_defs)
  have c2: "GetClaim forbiddenWorld demoReq = Inr demoClaim"
    by (simp add: GetClaim_def IsZero_def demo_defs)
  have h2: "NewHelper demoEnv forbiddenWorld demoClaim = Inr (demoHelper demoClaim)"
    by (simp add: NewHelper_def demo_defs)
  have r2: "getDatabaseObject forbiddenWorld demoClaim =
        ((None, None, None, Some (OtherError ''forbidden'')), [EvGetGalera demoKey :: string event])"
    by (simp add: getDatabaseObject_def label_def IsNotFound_def Let_def demo_defs)
  show ?thesis
    using store_unresolved[OF c h z r] store_unresolved[OF c2 h2 z r2] c h z r c2 h2 r2 by simp
qed

text \<open>
  C7 as stated fails for the fresh claim: the Galera is resolved and has not bootstrapped,
  and \<open>Reconcile\<close> returns the empty result (it has just added the claim's own finalizer),
  not the requeue of ten seconds.
\<close>

theorem store_not_ready_counterexample:
  "GetClaim demoWorld demoReq = Inr demoClaim
   \<and> IsZero (DeletionTimestamp demoClaim)
   \<and> getDatabaseObject demoWorld demoClaim =
        ((Some (GaleraObject demoGalera), Some demoGalera, None, None), [EvGetGalera demoKey :: string event])
   \<and> \<not> Galera_Status_Bootstrapped demoGalera
   \<and> result (Reconcile demoEnv demoWorld demoReq) = Result_empty
   \<and> Result_empty \<noteq> \<lparr>Requeue = False, RequeueAfter = 10 * Second\<rparr>"
  by (simp add: model_defs demo_defs)

text \<open>
  C7, amended. On the active path, when the backing store resolved and is not ready
  (Galera not bootstrapped, or MariaDB with an empty initialization hash), the claim
  already carries its own finalizer, and the update of the backing store (made only when
  the claim's token is not yet on it) does not fail: \<open>Reconcile\<close> returns a requeue after
  ten seconds and no error, after the update that puts the token on the backing store
  (when it was missing), and the executor is not run. The claim is handed to
  \<open>PatchInstance\<close> as it was fetched.
\<close>

theorem store_not_ready:
  assumes "GetClaim w req = Inr inst" and "NewHelper env w inst = Inr h"
    and "IsZero (DeletionTimestamp inst)"
    and "GetFinalizer h \<in> set (Finalizers inst)"
    and "getDatabaseObject w inst = ((Some d, g, m, None), tr0)"
    and "(\<exists>x. g = Some x \<and> \<not> Galera_Status_Bootstrapped x)
         \<or> (g = None \<and> (\<exists>y. m = Some y \<and> MariaDB_Status_DbInitHash y = []))"
    and "dbFinalizer h inst \<in> set (GetFinalizers d) \<or> updateFault w = None"
  shows "result (Reconcile env w req) = \<lparr>Requeue = False, RequeueAfter = 10 * Second\<rparr>
       \<and> err (Reconcile env w req) = None
       \<and> exit (Reconcile env w req) = (if g = None then ExitMariaDBNotReady else ExitGaleraNotReady)
       \<and> trace (Reconcile env w req) =
           [EvGetClaim req, EvNewHelper] @ tr0
           @ (if dbFinalizer h inst \<in> set (GetFinalizers d) then []
              else [EvUpdate (SetFinalizers d (GetFinalizers d @ [dbFinalizer h inst]))])
           @ [EvVariantCheck g m, EvPatchInstance inst]
       \<and> (\<forall>j. EvDoJob j \<notin> set (trace (Reconcile env w req)))"
proof -
  have j: "EvDoJob j \<notin> set tr0" for j
    using assms(5) by (metis getDatabaseObject_trace(2) snd_conv)
  have v: "checkVariant g m = Inl (if g = None then ExitMariaDBNotReady else ExitGaleraNotReady)"
    using assms(6) by (auto simp: checkVariant_def)
  from NewHelper_fields[OF assms(2)] have b: "beforeObject h = inst" by simp
  note unfold = Reconcile_fetched[OF assms(1,2)] body_active[OF assms(5,3)] deferredPatch_sel
    reconcileActive_def reconcileNormal_def v ret_def persist_eq persistEvents_def AddFinalizer_def
    Update_fst Update_faults b
  show ?thesis
  proof (cases "dbFinalizer h inst \<in> set (GetFinalizers d)")
    case True
    then show ?thesis using assms(4) j by (simp add: unfold)
  next
    case False
    with assms(7) have "updateFault w = None" by simp
    then show ?thesis using False assms(4) j by (simp add: unfold)
  qed
qed

text \<open>
  Scenario B with the finalizers in place: the Galera has not bootstrapped.
\<close>

theorem store_not_ready_witness:
  "GetClaim attachedWorld demoReq = Inr attachedClaim
   \<and> NewHelper demoEnv attachedWorld attachedClaim = Inr (demoHelper attachedClaim)
   \<and> IsZero (DeletionTimestamp attachedClaim)
   \<and> GetFinalizer (demoHelper attachedClaim) \<in> set (Finalizers attachedClaim)
   \<and> getDatabaseObject attachedWorld attachedClaim =
        ((Some (GaleraObject attachedGalera), Some attachedGalera, None, None),
         [EvGetGalera demoKey :: string event])
   \<and> \<not> Galera_Status_Bootstrapped attachedGalera
   \<and> dbFinalizer (demoHelper attachedClaim) attachedClaim \<in> set (GetFinalizers (GaleraObject attachedGalera))
   \<and> result (Reconcile demoEnv attachedWorld demoReq) = \<lparr>Requeue = False, RequeueAfter = 10 * Second\<rparr>
   \<and> err (Reconcile demoEnv attachedWorld demoReq) = None
   \<and> exit (Reconcile demoEnv attachedWorld demoReq) = ExitGaleraNotReady"
proof -
  have c: "GetClaim attachedWorld demoReq = Inr attachedClaim"
    by (simp add: GetClaim_def IsZero_def demo_defs)
  have h: "NewHelper demoEnv attachedWorld attachedClaim = Inr (demoHelper attachedClaim)"
    by (simp add: NewHelper_def demo_defs)
  have z: "IsZero (DeletionTimestamp attachedClaim)"
    by (simp add: IsZero_def demo_defs)
  have f: "GetFinalizer (demoHelper attachedClaim) \<in> set (Finalizers attachedClaim)"
    by (simp add: GetFinalizer_def demo_defs)
  have r: "getDatabaseObject attachedWorld attachedClaim =
        ((Some (GaleraObject attachedGalera), Some attachedGalera, None, None),
         [EvGetGalera demoKey :: string event])"
    by (simp add: getDatabaseObject_def label_def demo_defs)
  have n: "\<not> Galera_Status_Bootstrapped attachedGalera"
    by (simp add: demo_defs)
  have t: "dbFinalizer (demoHelper attachedClaim) attachedClaim \<in> set (GetFinalizers (GaleraObject attachedGalera))"
    by (simp add: dbFinalizer_def GetFinalizer_def demo_defs)
  show ?thesis
    using store_not_ready[OF c h z f r _ disjI1[OF t]] c h z f r n t
    by simp
qed

section \<open>The finalizers\<close>

text \<open>
  C1 as stated fails for the fresh claim whose backing store does not exist: the claim is
  active and does not carry its own finalizer, yet \<open>Reconcile\<close> returns the requeue of ten
  seconds and adds no finalizer (no update, and the claim is patched as fetched).
\<close>

theorem own_finalizer_added_counterexample:
  "GetClaim missingWorld demoReq = Inr demoClaim
   \<and> IsZero (DeletionTimestamp demoClaim)
   \<and> Kind demoEnv \<notin> set (Finalizers demoClaim)
   \<and> result (Reconcile demoEnv missingWorld demoReq) = \<lparr>Requeue = False, RequeueAfter = 10 * Second\<rparr>
   \<and> result (Reconcile demoEnv missingWorld demoReq) \<noteq> Result_empty
   \<and> trace (Reconcile demoEnv missingWorld demoReq) =
        [EvGetClaim demoReq, EvNewHelper, EvGetGalera demoKey, EvGetMariaDB demoKey,
         EvPatchInstance demoClaim]"
  by (simp add: model_defs demo_defs)

text \<open>
  C1, amended. On the active path, when the backing store resolved, the claim does not
  carry its own finalizer and the update of the backing store (made only when the
  claim's token is not yet on it) does not fail: \<open>Reconcile\<close> updates the backing store
  with the token (when it was missing), adds the claim's own finalizer and returns at
  once (line 150) with the empty result, and with no error unless the patch of the claim
  fails (the store refuses it with another answer than \<open>NotFound\<close>); there is no readiness
  check and the executor is not run. And in every invocation in which the executor runs,
  the claim carried its own finalizer at entry.
\<close>

theorem own_finalizer_added:
  fixes env :: "('jd, 'js) env"
  shows
  "(GetClaim w req = Inr inst \<and> NewHelper env w inst = Inr h
      \<and> IsZero (DeletionTimestamp inst) \<and> GetFinalizer h \<notin> set (Finalizers inst)
      \<and> getDatabaseObject w inst = ((Some d, g, m, None), tr0)
      \<and> (dbFinalizer h inst \<in> set (GetFinalizers d) \<or> updateFault w = None)
    \<longrightarrow> result (Reconcile env w req) = Result_empty
        \<and> err (Reconcile env w req) = IgnoreNotFound (patchFault w)
        \<and> exit (Reconcile env w req) = ExitFinalizerAdded
        \<and> trace (Reconcile env w req) =
             [EvGetClaim req, EvNewHelper] @ tr0
             @ (if dbFinalizer h inst \<in> set (GetFinalizers d) then []
                else [EvUpdate (SetFinalizers d (GetFinalizers d @ [dbFinalizer h inst]))])
             @ [EvPatchInstance (inst\<lparr>Finalizers := Finalizers inst @ [GetFinalizer h]\<rparr>)]
        \<and> (\<forall>g' m'. EvVariantCheck g' m' \<notin> set (trace (Reconcile env w req)))
        \<and> (\<forall>j. EvDoJob j \<notin> set (trace (Reconcile env w req))))
   \<and> (\<forall>inst0 j. GetClaim w req = Inr inst0 \<and> EvDoJob j \<in> set (trace (Reconcile env w req))
          \<longrightarrow> Kind env \<in> set (Finalizers inst0))"
proof (intro conjI impI allI)
  assume a: "GetClaim w req = Inr inst \<and> NewHelper env w inst = Inr h
      \<and> IsZero (DeletionTimestamp inst) \<and> GetFinalizer h \<notin> set (Finalizers inst)
      \<and> getDatabaseObject w inst = ((Some d, g, m, None), tr0)
      \<and> (dbFinalizer h inst \<in> set (GetFinalizers d) \<or> updateFault w = None)"
  then have c: "GetClaim w req = Inr inst" and h: "NewHelper env w inst = Inr h"
    and z: "IsZero (DeletionTimestamp inst)" and f: "GetFinalizer h \<notin> set (Finalizers inst)"
    and r: "getDatabaseObject w inst = ((Some d, g, m, None), tr0)"
    and u: "dbFinalizer h inst \<in> set (GetFinalizers d) \<or> updateFault w = None"
    by simp_all
  from NewHelper_fields[OF h] have b: "beforeObject h = inst" by simp
  note unfold = Reconcile_fetched[OF c h] body_active[OF r z] deferredPatch_sel
    reconcileActive_def ret_def persist_eq persistEvents_def AddFinalizer_def Update_fst Update_faults
    b claim_added
  have "result (Reconcile env w req) = Result_empty
        \<and> err (Reconcile env w req) = IgnoreNotFound (patchFault w)
        \<and> exit (Reconcile env w req) = ExitFinalizerAdded
        \<and> trace (Reconcile env w req) =
             [EvGetClaim req, EvNewHelper] @ tr0
             @ (if dbFinalizer h inst \<in> set (GetFinalizers d) then []
                else [EvUpdate (SetFinalizers d (GetFinalizers d @ [dbFinalizer h inst]))])
             @ [EvPatchInstance (inst\<lparr>Finalizers := Finalizers inst @ [GetFinalizer h]\<rparr>)]"
  proof (cases "dbFinalizer h inst \<in> set (GetFinalizers d)")
    case True
    then show ?thesis using f by (simp add: unfold)
  next
    case False
    with u have "updateFault w = None" by simp
    then show ?thesis using False f by (simp add: unfold)
  qed
  then show "result (Reconcile env w req) = Result_empty"
    and "err (Reconcile env w req) = IgnoreNotFound (patchFault w)"
    and "exit (Reconcile env w req) = ExitFinalizerAdded"
    and t: "trace (Reconcile env w req) =
             [EvGetClaim req, EvNewHelper] @ tr0
             @ (if dbFinalizer h inst \<in> set (GetFinalizers d) then []
                else [EvUpdate (SetFinalizers d (GetFinalizers d @ [dbFinalizer h inst]))])
             @ [EvPatchInstance (inst\<lparr>Finalizers := Finalizers inst @ [GetFinalizer h]\<rparr>)]"
    by simp_all
  have "EvVariantCheck g' m' \<notin> set tr0" for g' m'
    using r by (metis getDatabaseObject_trace(3) snd_conv)
  then show "EvVariantCheck g' m' \<notin> set (trace (Reconcile env w req))" for g' m'
    by (simp add: t)
  have "EvDoJob j \<notin> set tr0" for j :: "'jd Job"
    using r by (metis getDatabaseObject_trace(2) snd_conv)
  then show "EvDoJob j \<notin> set (trace (Reconcile env w req))" for j
    by (simp add: t)
next
  fix inst0 and j :: "'jd Job"
  assume "GetClaim w req = Inr inst0 \<and> EvDoJob j \<in> set (trace (Reconcile env w req))"
  then show "Kind env \<in> set (Finalizers inst0)"
    by (auto simp: Reconcile_def deferredPatch_sel NewHelper_def GetFinalizer_def
          split: sum.splits option.splits dest!: body_dojob)
qed

text \<open>
  The fresh world: both finalizers are added and \<open>Reconcile\<close> returns. The ready world: the
  executor runs, on a claim that carries its own finalizer.
\<close>

theorem own_finalizer_added_witness:
  "GetClaim demoWorld demoReq = Inr demoClaim
   \<and> NewHelper demoEnv demoWorld demoClaim = Inr (demoHelper demoClaim)
   \<and> IsZero (DeletionTimestamp demoClaim)
   \<and> GetFinalizer (demoHelper demoClaim) \<notin> set (Finalizers demoClaim)
   \<and> getDatabaseObject demoWorld demoClaim =
        ((Some (GaleraObject demoGalera), Some demoGalera, None, None), [EvGetGalera demoKey :: string event])
   \<and> updateFault demoWorld = None
   \<and> result (Reconcile demoEnv demoWorld demoReq) = Result_empty
   \<and> err (Reconcile demoEnv demoWorld demoReq) = None
   \<and> exit (Reconcile demoEnv demoWorld demoReq) = ExitFinalizerAdded
   \<and> trace (Reconcile demoEnv demoWorld demoReq) =
        [EvGetClaim demoReq, EvNewHelper, EvGetGalera demoKey,
         EvUpdate (GaleraObject attachedGalera), EvPatchInstance attachedClaim]
   \<and> GetClaim readyWorld demoReq = Inr attachedClaim
   \<and> EvDoJob (NewJob ''keystone@openstack-db/osp-secret/mariadb:10'' ''dbcreate'' False (5 * Second) [])
        \<in> set (trace (Reconcile demoEnv readyWorld demoReq))
   \<and> Kind demoEnv \<in> set (Finalizers attachedClaim)"
proof -
  have c: "GetClaim demoWorld demoReq = Inr demoClaim"
    by (simp add: GetClaim_def IsZero_def demo_defs)
  have h: "NewHelper demoEnv demoWorld demoClaim = Inr (demoHelper demoClaim)"
    by (simp add: NewHelper_def demo_defs)
  have z: "IsZero (DeletionTimestamp demoClaim)"
    by (simp add: IsZero_def demo_defs)
  have f: "GetFinalizer (demoHelper demoClaim) \<notin> set (Finalizers demoClaim)"
    by (simp add: GetFinalizer_def demo_defs)
  have r: "getDatabaseObject demoWorld demoClaim =
        ((Some (GaleraObject demoGalera), Some demoGalera, None, None), [EvGetGalera demoKey :: string event])"
    by (simp add: getDatabaseObject_def label_def demo_defs)
  have u: "updateFault demoWorld = None" and p: "IgnoreNotFound (patchFault demoWorld) = None"
    by (simp_all add: IgnoreNotFound_def IsNotFound_def demo_defs)
  have t: "dbFinalizer (demoHelper demoClaim) demoClaim \<notin> set (GetFinalizers (GaleraObject demoGalera))"
    "SetFinalizers (GaleraObject demoGalera)
       (GetFinalizers (GaleraObject demoGalera) @ [dbFinalizer (demoHelper demoClaim) demoClaim])
      = GaleraObject attachedGalera"
    "demoClaim\<lparr>Finalizers := Finalizers demoClaim @ [GetFinalizer (demoHelper demoClaim)]\<rparr> = attachedClaim"
    by (simp_all add: dbFinalizer_def GetFinalizer_def demo_defs)
  have c2: "GetClaim readyWorld demoReq = Inr attachedClaim"
    by (simp add: GetClaim_def IsZero_def demo_defs)
  have j: "EvDoJob (NewJob ''keystone@openstack-db/osp-secret/mariadb:10'' ''dbcreate'' False (5 * Second) [])
        \<in> set (trace (Reconcile demoEnv readyWorld demoReq))"
    by (simp add: model_defs demo_defs)
  from own_finalizer_added[of demoWorld demoReq demoClaim demoEnv "demoHelper demoClaim"
      "GaleraObject demoGalera" "Some demoGalera" None "[EvGetGalera demoKey]"]
  have first: "result (Reconcile demoEnv demoWorld demoReq) = Result_empty
        \<and> err (Reconcile demoEnv demoWorld demoReq) = None
        \<and> exit (Reconcile demoEnv demoWorld demoReq) = ExitFinalizerAdded
        \<and> trace (Reconcile demoEnv demoWorld demoReq) =
            [EvGetClaim demoReq, EvNewHelper, EvGetGalera demoKey,
             EvUpdate (GaleraObject attachedGalera), EvPatchInstance attachedClaim]"
    using c h z f r u p t by simp
  from own_finalizer_added[of readyWorld demoReq _ demoEnv]
  have second: "Kind demoEnv \<in> set (Finalizers attachedClaim)"
    using c2 j by blast
  show ?thesis
    using first second c h z f r u c2 j by simp
qed

text \<open>
  C2 as stated fails where the patch of the claim fails: the claim is marked for deletion,
  the update of the backing store succeeds, the claim's own finalizer is removed, the
  store answers the patch of the claim with a conflict, and \<open>Reconcile\<close> returns that
  error.
\<close>

theorem deletion_counterexample:
  "GetClaim (deletingWorld\<lparr>patchFault := Some (OtherError ''conflict'')\<rparr>) demoReq
     = Inr (attachedClaim\<lparr>DeletionTimestamp := Some 1700000000\<rparr>)
   \<and> \<not> IsZero (DeletionTimestamp (attachedClaim\<lparr>DeletionTimestamp := Some 1700000000\<rparr>))
   \<and> updateFault (deletingWorld\<lparr>patchFault := Some (OtherError ''conflict'')\<rparr>) = None
   \<and> trace (Reconcile demoEnv (deletingWorld\<lparr>patchFault := Some (OtherError ''conflict'')\<rparr>) demoReq) =
        [EvGetClaim demoReq, EvNewHelper, EvGetGalera demoKey, EvUpdate (GaleraObject demoGalera),
         EvPatchInstance (demoClaim\<lparr>DeletionTimestamp := Some 1700000000\<rparr>)]
   \<and> err (Reconcile demoEnv (deletingWorld\<lparr>patchFault := Some (OtherError ''conflict'')\<rparr>) demoReq)
        = Some (OtherError ''conflict'')"
  by (simp add: model_defs demo_defs)

text \<open>
  C2, amended. When the claim is fetched with its deletion marker set and the helper is
  made, \<open>Reconcile\<close> returns the empty result and the executor is not run, whatever the
  resolution of the backing store gave. If the backing store resolved and carries the
  claim's token, the token is removed and the object is updated; when the update succeeds
  the claim's own finalizer is removed afterwards, and when it fails the claim keeps its
  finalizer and the error of the update is returned. If the backing store did not resolve
  (or does not carry the token), the claim's own finalizer is removed directly, with no
  update. The error returned is that of the update when the update fails (the claim is
  then unchanged and no patch is sent). Otherwise it is that of the patch of the claim,
  which is sent when the claim carried its own finalizer, when the store refuses it with
  another answer than \<open>NotFound\<close>; and there is no error in every other case.
\<close>

theorem deletion_path:
  fixes env :: "('jd, 'js) env"
  assumes "GetClaim w req = Inr inst" and "NewHelper env w inst = Inr h"
    and "\<not> IsZero (DeletionTimestamp inst)"
    and "getDatabaseObject w inst = ((db, g, m, e), tr0)"
  shows "(\<forall>j. EvDoJob j \<notin> set (trace (Reconcile env w req)))
       \<and> result (Reconcile env w req) = Result_empty
       \<and> (\<forall>d. e = None \<and> db = Some d \<and> dbFinalizer h inst \<in> set (GetFinalizers d) \<longrightarrow>
            trace (Reconcile env w req) =
              [EvGetClaim req, EvNewHelper] @ tr0
              @ [EvUpdate (SetFinalizers d (filter (\<lambda>f. f \<noteq> dbFinalizer h inst) (GetFinalizers d))),
                 EvPatchInstance
                   (if updateFault w = None
                    then inst\<lparr>Finalizers := filter (\<lambda>f. f \<noteq> GetFinalizer h) (Finalizers inst)\<rparr>
                    else inst)]
            \<and> exit (Reconcile env w req) =
                 (if updateFault w = None then ExitDeleted else ExitDetachUpdateFailed)
            \<and> err (Reconcile env w req) =
                 (if updateFault w \<noteq> None then updateFault w
                  else if GetFinalizer h \<in> set (Finalizers inst) then IgnoreNotFound (patchFault w)
                  else None))
       \<and> (e \<noteq> None \<or> (\<exists>d. db = Some d \<and> dbFinalizer h inst \<notin> set (GetFinalizers d)) \<longrightarrow>
            trace (Reconcile env w req) =
              [EvGetClaim req, EvNewHelper] @ tr0
              @ [EvPatchInstance (inst\<lparr>Finalizers := filter (\<lambda>f. f \<noteq> GetFinalizer h) (Finalizers inst)\<rparr>)]
            \<and> exit (Reconcile env w req) = ExitDeleted
            \<and> err (Reconcile env w req) =
                 (if GetFinalizer h \<in> set (Finalizers inst) then IgnoreNotFound (patchFault w) else None))"
proof -
  have j: "EvDoJob j \<notin> set tr0" for j :: "'jd Job"
    using assms(4) by (metis getDatabaseObject_trace(2) snd_conv)
  have len: "(length xs \<noteq> length (filter (\<lambda>f. f \<noteq> t) xs)) = (t \<in> set xs)" for xs and t :: string
    by (metis (mono_tags, lifting) filter_True filter_id_conv length_filter_less nat_neq_iff)
  from NewHelper_fields[OF assms(2)] have b: "beforeObject h = inst" by simp
  note unfold = Reconcile_fetched[OF assms(1,2)] body_delete[OF assms(4,3)] deferredPatch_sel
  have 1: "\<forall>j. EvDoJob j \<notin> set (trace (Reconcile env w req))"
    using j by (simp add: unfold delete_trace)
  have 2: "result (Reconcile env w req) = Result_empty"
    by (simp add: unfold reconcileDelete_def ret_def Let_def case_prod_beta split: option.splits)
  note unfold2 = unfold reconcileDelete_def ret_def Let_def persist_eq persistEvents_def RemoveFinalizer_def
    Update_fst Update_faults len b claim_removed
  have 3: "trace (Reconcile env w req) =
              [EvGetClaim req, EvNewHelper] @ tr0
              @ [EvUpdate (SetFinalizers d (filter (\<lambda>f. f \<noteq> dbFinalizer h inst) (GetFinalizers d))),
                 EvPatchInstance
                   (if updateFault w = None
                    then inst\<lparr>Finalizers := filter (\<lambda>f. f \<noteq> GetFinalizer h) (Finalizers inst)\<rparr>
                    else inst)]
            \<and> exit (Reconcile env w req) =
                 (if updateFault w = None then ExitDeleted else ExitDetachUpdateFailed)
            \<and> err (Reconcile env w req) =
                 (if updateFault w \<noteq> None then updateFault w
                  else if GetFinalizer h \<in> set (Finalizers inst) then IgnoreNotFound (patchFault w)
                  else None)"
    if "e = None" "db = Some d" "dbFinalizer h inst \<in> set (GetFinalizers d)" for d
    using that by (cases "updateFault w"; simp add: unfold2)
  have 4: "trace (Reconcile env w req) =
              [EvGetClaim req, EvNewHelper] @ tr0
              @ [EvPatchInstance (inst\<lparr>Finalizers := filter (\<lambda>f. f \<noteq> GetFinalizer h) (Finalizers inst)\<rparr>)]
            \<and> exit (Reconcile env w req) = ExitDeleted
            \<and> err (Reconcile env w req) =
                 (if GetFinalizer h \<in> set (Finalizers inst) then IgnoreNotFound (patchFault w) else None)"
    if "e \<noteq> None \<or> (\<exists>d. db = Some d \<and> dbFinalizer h inst \<notin> set (GetFinalizers d))"
  proof (cases "e = None")
    case True
    with that obtain d where "db = Some d" "dbFinalizer h inst \<notin> set (GetFinalizers d)" by auto
    with True show ?thesis by (simp add: unfold2)
  next
    case False
    then obtain y where "e = Some y" by auto
    then show ?thesis by (simp add: unfold2)
  qed
  from 1 2 3 4 show ?thesis by blast
qed

text \<open>
  Scenario D: the attached claim is marked for deletion while its Galera exists.
\<close>

theorem deletion_path_witness:
  "GetClaim deletingWorld demoReq = Inr (attachedClaim\<lparr>DeletionTimestamp := Some 1700000000\<rparr>)
   \<and> NewHelper demoEnv deletingWorld (attachedClaim\<lparr>DeletionTimestamp := Some 1700000000\<rparr>)
        = Inr (demoHelper (attachedClaim\<lparr>DeletionTimestamp := Some 1700000000\<rparr>))
   \<and> \<not> IsZero (DeletionTimestamp (attachedClaim\<lparr>DeletionTimestamp := Some 1700000000\<rparr>))
   \<and> getDatabaseObject deletingWorld (attachedClaim\<lparr>DeletionTimestamp := Some 1700000000\<rparr>) =
        ((Some (GaleraObject attachedGalera), Some attachedGalera, None, None),
         [EvGetGalera demoKey :: string event])
   \<and> result (Reconcile demoEnv deletingWorld demoReq) = Result_empty
   \<and> err (Reconcile demoEnv deletingWorld demoReq) = None
   \<and> exit (Reconcile demoEnv deletingWorld demoReq) = ExitDeleted
   \<and> trace (Reconcile demoEnv deletingWorld demoReq) =
        [EvGetClaim demoReq, EvNewHelper, EvGetGalera demoKey, EvUpdate (GaleraObject demoGalera),
         EvPatchInstance (demoClaim\<lparr>DeletionTimestamp := Some 1700000000\<rparr>)]"
proof -
  let ?c = "attachedClaim\<lparr>DeletionTimestamp := Some 1700000000\<rparr>"
  have c: "GetClaim deletingWorld demoReq = Inr ?c"
    by (simp add: GetClaim_def IsZero_def demo_defs)
  have h: "NewHelper demoEnv deletingWorld ?c = Inr (demoHelper ?c)"
    by (simp add: NewHelper_def demo_defs)
  have z: "\<not> IsZero (DeletionTimestamp ?c)"
    by (simp add: IsZero_def demo_defs)
  have r: "getDatabaseObject deletingWorld ?c =
        ((Some (GaleraObject attachedGalera), Some attachedGalera, None, None),
         [EvGetGalera demoKey :: string event])"
    by (simp add: getDatabaseObject_def label_def demo_defs)
  have u: "updateFault deletingWorld = None" and p: "IgnoreNotFound (patchFault deletingWorld) = None"
    by (simp_all add: IgnoreNotFound_def IsNotFound_def demo_defs)
  have t: "dbFinalizer (demoHelper ?c) ?c \<in> set (GetFinalizers (GaleraObject attachedGalera))"
    "SetFinalizers (GaleraObject attachedGalera)
       (filter (\<lambda>f. f \<noteq> dbFinalizer (demoHelper ?c) ?c) (GetFinalizers (GaleraObject attachedGalera)))
      = GaleraObject demoGalera"
    "?c\<lparr>Finalizers := filter (\<lambda>f. f \<noteq> GetFinalizer (demoHelper ?c)) (Finalizers ?c)\<rparr>
      = demoClaim\<lparr>DeletionTimestamp := Some 1700000000\<rparr>"
    by (simp_all add: dbFinalizer_def GetFinalizer_def demo_defs)
  show ?thesis
    using deletion_path[OF c h z r] c h z r u p t by simp
qed

section \<open>A second invocation\<close>























section \<open>Two invocations in succession\<close>




end
